theory Spec2Isabelle
  imports Main "HOL-Library.Word"
begin

unbundle bit_operations_syntax

section \<open>Values of the program\<close>

text \<open>
  The reader is JavaScript. A byte of a \<^verbatim>\<open>Uint8Array\<close> is an \<open>8 word\<close>; a string is the
  list of its UTF-16 code units; a number that the code only ever computes from 32-bit
  reads by exact integer arithmetic is an \<open>int\<close>; a \<^verbatim>\<open>BigInt\<close> is an \<open>int\<close> as well.
  An exception is a value of the type \<open>error\<close>, returned as \<open>Inl\<close>.
\<close>

type_synonym byte = "8 word"
type_synonym jsstring = "nat list"

datatype error =
    RangeError
  | TypeError
  | InvalidPropertiesHeader
  | InvalidSize
  | UnsupportedFileType

definition ustr :: "string \<Rightarrow> jsstring" where
  "ustr s = map of_char s"

text \<open>BigInt division truncates towards zero.\<close>

definition bigint_div :: "int \<Rightarrow> int \<Rightarrow> int" where
  "bigint_div a b = sgn a * sgn b * (\<bar>a\<bar> div \<bar>b\<bar>)"

text \<open>
  Sequencing of steps that may throw: the first exception ends the computation.
\<close>

definition andThen :: "error + 'a \<Rightarrow> ('a \<Rightarrow> error + 'b) \<Rightarrow> error + 'b" where
  "andThen m f = (case m of Inl e \<Rightarrow> Inl e | Inr a \<Rightarrow> f a)"

section \<open>Fixed property decoder: inline payloads\<close>

text \<open>
  What \<^verbatim>\<open>#readFieldData\<close> returns: a \<^verbatim>\<open>Date\<close> (its time value, milliseconds since the
  Unix epoch), \<^verbatim>\<open>null\<close>, a number, a BigInt or a boolean.
\<close>

datatype fieldData =
    FNull
  | FUndefined
  | FDate int
  | FNumber int
  | FBigInt int
  | FBoolean bool

text \<open>
  \<^verbatim>\<open>a[i]\<close> as an operand of a bitwise operator or of \<^verbatim>\<open>DataView.setUint8\<close>: an index past
  the end reads \<^verbatim>\<open>undefined\<close>, which both convert to 0.
\<close>

definition byteAt :: "byte list \<Rightarrow> nat \<Rightarrow> byte" where
  "byteAt a i = (if i < length a then a ! i else 0)"

text \<open>
  \<^verbatim>\<open>#convertFiletimeToDateTime\<close>. The operators \<^verbatim>\<open>|\<close> and \<^verbatim>\<open><<\<close> on numbers work on 32-bit
  words and give a signed 32-bit result (\<open>sint\<close>); on BigInts \<^verbatim>\<open><<\<close> and \<^verbatim>\<open>|\<close> work on
  unbounded two's complement integers, as \<open>push_bit\<close> and \<open>OR\<close> on \<open>int\<close> do.
  The quotient lies within \<open>\<plusminus> 2 ^ 53\<close> and within the range of a \<^verbatim>\<open>Date\<close>, so
  \<^verbatim>\<open>Number(unixTicks)\<close> is exact and the time value of the \<^verbatim>\<open>Date\<close> is the quotient.
\<close>

definition int32_of_bytes :: "byte \<Rightarrow> byte \<Rightarrow> byte \<Rightarrow> byte \<Rightarrow> int" where
  "int32_of_bytes b0 b1 b2 b3 =
     sint ((ucast b0 :: 32 word) OR push_bit 8 (ucast b1) OR push_bit 16 (ucast b2)
           OR push_bit 24 (ucast b3))"

definition convertFiletimeToDateTime :: "byte list \<Rightarrow> int" where
  "convertFiletimeToDateTime filetime =
     (let lowPart = int32_of_bytes (byteAt filetime 0) (byteAt filetime 1)
                      (byteAt filetime 2) (byteAt filetime 3);
          highPart = int32_of_bytes (byteAt filetime 4) (byteAt filetime 5)
                      (byteAt filetime 6) (byteAt filetime 7);
          filetimeValue = push_bit 32 highPart OR lowPart;
          ticksPerMillisecond = 10000;
          epochTicks = 116444736000000000;
          unixTicks = bigint_div (filetimeValue - epochTicks) ticksPerMillisecond
      in unixTicks)"


text \<open>
  \<^verbatim>\<open>#uint8ArrayToInt\<close> (always called with \<^verbatim>\<open>signed = true\<close>). It copies \<open>size / 8\<close> bytes into a
  \<^verbatim>\<open>DataView\<close> and reads them back with \<^verbatim>\<open>getInt16(0)\<close>, \<^verbatim>\<open>getInt32(0)\<close> and \<^verbatim>\<open>getUint32(4)\<close>,
  which are big-endian when no endianness is passed.
\<close>

definition be_uint :: "byte list \<Rightarrow> nat" where
  "be_uint bs = foldl (\<lambda>acc b. acc * 256 + unat b) 0 bs"

definition to_signed :: "nat \<Rightarrow> nat \<Rightarrow> int" where
  "to_signed bits n = (if n < 2 ^ (bits - 1) then int n else int n - 2 ^ bits)"

definition uint8ArrayToInt :: "byte list \<Rightarrow> nat \<Rightarrow> error + fieldData" where
  "uint8ArrayToInt uint8Array sz =
     (if sz mod 8 \<noteq> 0 \<or> sz < 8 \<or> sz > 64 then Inl InvalidSize
      else let view = map (byteAt uint8Array) [0..<sz div 8] in
        if sz = 8 then Inr (FNumber (to_signed 8 (be_uint (take 1 view))))
        else if sz = 16 then Inr (FNumber (to_signed 16 (be_uint (take 2 view))))
        else if sz = 32 then Inr (FNumber (to_signed 32 (be_uint (take 4 view))))
        else if sz = 64 then
          (let high = to_signed 32 (be_uint (take 4 view));
               low = int (be_uint (take 4 (drop 4 view)))
           in Inr (FBigInt (low + push_bit 32 high)))
        else Inr FUndefined)"

text \<open>
  \<^verbatim>\<open>#readFieldData\<close>, called with the four-digit hexadecimal text of the type, which
  \<^verbatim>\<open>toLowerCase\<close> leaves as it is. In the case \<^verbatim>\<open>'000b'\<close> the source compares a BigInt with the
  number 0 by \<^verbatim>\<open>!==\<close>, which is true of every BigInt.
\<close>

definition readFieldData :: "jsstring \<Rightarrow> byte list \<Rightarrow> error + fieldData" where
  "readFieldData ftype binaryData =
     (if ftype = ustr ''0040'' then Inr (FDate (convertFiletimeToDateTime binaryData))
      else if ftype = ustr ''0001'' then Inr FNull
      else if ftype = ustr ''0002'' then uint8ArrayToInt binaryData 16
      else if ftype = ustr ''0003'' then uint8ArrayToInt binaryData 32
      else if ftype = ustr ''0014'' then uint8ArrayToInt binaryData 64
      else if ftype = ustr ''000b'' then
        (case uint8ArrayToInt binaryData 64 of Inl e \<Rightarrow> Inl e | Inr v \<Rightarrow> Inr (FBoolean True))
      else Inr FNull)"

section \<open>The byte cursor\<close>

text \<open>
  A \<^verbatim>\<open>DataStream\<close> is its bytes (those of its virtual byte length) and its position. A read
  through the \<^verbatim>\<open>DataView\<close> or through a typed array past the end throws \<^verbatim>\<open>RangeError\<close>.
\<close>

record dstream =
  buffer :: "byte list"
  position :: nat

definition byteLength :: "dstream \<Rightarrow> nat" where
  "byteLength ds = length (buffer ds)"

text \<open>
  \<^verbatim>\<open>seek\<close> clamps between 0 and the byte length; a position that is not a number
  (\<open>None\<close>) becomes 0.
\<close>

definition seek :: "dstream \<Rightarrow> int option \<Rightarrow> dstream" where
  "seek ds pos =
     (case pos of
        None \<Rightarrow> ds\<lparr>position := 0\<rparr>
      | Some p \<Rightarrow> ds\<lparr>position := nat (max 0 (min (int (byteLength ds)) p))\<rparr>)"

definition isEof :: "dstream \<Rightarrow> bool" where
  "isEof ds = (position ds \<ge> byteLength ds)"

definition le_uint :: "byte list \<Rightarrow> nat" where
  "le_uint bs = foldr (\<lambda>b acc. unat b + 256 * acc) bs 0"

text \<open>The \<open>n\<close> bytes at the position, and the stream behind them.\<close>

definition readBytes :: "dstream \<Rightarrow> nat \<Rightarrow> error + (byte list \<times> dstream)" where
  "readBytes ds n =
     (if position ds + n > byteLength ds then Inl RangeError
      else Inr (take n (drop (position ds) (buffer ds)), ds\<lparr>position := position ds + n\<rparr>))"

definition readUint8 :: "dstream \<Rightarrow> error + (nat \<times> dstream)" where
  "readUint8 ds = (case readBytes ds 1 of Inl e \<Rightarrow> Inl e | Inr (bs, ds') \<Rightarrow> Inr (le_uint bs, ds'))"

definition readUint16 :: "dstream \<Rightarrow> error + (nat \<times> dstream)" where
  "readUint16 ds = (case readBytes ds 2 of Inl e \<Rightarrow> Inl e | Inr (bs, ds') \<Rightarrow> Inr (le_uint bs, ds'))"

definition readUint32 :: "dstream \<Rightarrow> error + (nat \<times> dstream)" where
  "readUint32 ds = (case readBytes ds 4 of Inl e \<Rightarrow> Inl e | Inr (bs, ds') \<Rightarrow> Inr (le_uint bs, ds'))"

definition readInt8 :: "dstream \<Rightarrow> error + (int \<times> dstream)" where
  "readInt8 ds =
     (case readBytes ds 1 of Inl e \<Rightarrow> Inl e | Inr (bs, ds') \<Rightarrow> Inr (to_signed 8 (le_uint bs), ds'))"

definition readInt16 :: "dstream \<Rightarrow> error + (int \<times> dstream)" where
  "readInt16 ds =
     (case readBytes ds 2 of Inl e \<Rightarrow> Inl e | Inr (bs, ds') \<Rightarrow> Inr (to_signed 16 (le_uint bs), ds'))"

definition readInt32 :: "dstream \<Rightarrow> error + (int \<times> dstream)" where
  "readInt32 ds =
     (case readBytes ds 4 of Inl e \<Rightarrow> Inl e | Inr (bs, ds') \<Rightarrow> Inr (to_signed 32 (le_uint bs), ds'))"


section \<open>Collaborators taken as parameters\<close>

text \<open>
  The property tag table \<^verbatim>\<open>MAPI_PROPERTIES\<close> of the source has some 2900 entries; it is a
  parameter here, a partial function from the key (\<^verbatim>\<open>'0x'\<close> and four hexadecimal digits)
  to the canonical name. None of its names is a member of \<^verbatim>\<open>Object.prototype\<close>, so a lookup
  of a name in a bag sees own properties only. \<^verbatim>\<open>String.prototype.toLowerCase\<close> and the
  UTF-8 \<^verbatim>\<open>TextDecoder\<close> belong to the platform and are parameters too.
\<close>

record env =
  MAPI_PROPERTIES :: "jsstring \<Rightarrow> jsstring option"
  toLowerCase :: "jsstring \<Rightarrow> jsstring"
  utf8Decode :: "byte list \<Rightarrow> jsstring"

text \<open>\<^verbatim>\<open>#getMapiFieldName\<close>: \<open>None\<close> is \<^verbatim>\<open>null\<close>.\<close>

definition getMapiFieldName :: "env \<Rightarrow> jsstring \<Rightarrow> jsstring option" where
  "getMapiFieldName env fieldClass = MAPI_PROPERTIES env (ustr ''0x'' @ toLowerCase env fieldClass)"

text \<open>\<^verbatim>\<open>Number.prototype.toString(16)\<close> and \<^verbatim>\<open>padStart(4, '0')\<close> on a natural number.\<close>

definition hex_digit :: "nat \<Rightarrow> nat" where
  "hex_digit d = (if d < 10 then 48 + d else 87 + d)"

fun toString16 :: "nat \<Rightarrow> jsstring" where
  "toString16 n = (if n < 16 then [hex_digit n] else toString16 (n div 16) @ [hex_digit (n mod 16)])"

declare toString16.simps [simp del]

definition padStart4 :: "jsstring \<Rightarrow> jsstring" where
  "padStart4 s = replicate (4 - length s) 48 @ s"

section \<open>Fixed property stream decoder\<close>

text \<open>
  The object \<^verbatim>\<open>values\<close> that \<^verbatim>\<open>#readRootProperties\<close> fills: the key \<^verbatim>\<open>_header\<close> holds the four
  counters, every other key a property record. An assignment to a key that exists replaces
  its value in place; a new key goes to the end. The three booleans \<^verbatim>\<open>flags.mandatory\<close>,
  \<^verbatim>\<open>flags.readable\<close> and \<^verbatim>\<open>flags.writeable\<close> of the source are computed from the hexadecimal
  text of the flags word read as a decimal number; the record keeps the flags word instead.
\<close>

record header =
  nextRecipientId :: nat
  nextAttachmentId :: nat
  recipientCount :: nat
  attachmentCount :: nat

record fixedProperty =
  ftype :: nat
  typeStr :: jsstring
  flagsWord :: nat
  binData :: "byte list"
  fdata :: fieldData

datatype rootval = RHeader header | RProperty fixedProperty

type_synonym rootvalues = "(jsstring \<times> rootval) list"

fun obj_set :: "'k \<Rightarrow> 'v \<Rightarrow> ('k \<times> 'v) list \<Rightarrow> ('k \<times> 'v) list" where
  "obj_set k v [] = [(k, v)]"
| "obj_set k v (p # ps) = (if fst p = k then (k, v) # ps else p # obj_set k v ps)"

text \<open>The loop \<^verbatim>\<open>for (let i = 0; i < 8; i++) if (ds.readUint8() !== 0) throw ...\<close>.\<close>

fun reservedZero :: "nat \<Rightarrow> dstream \<Rightarrow> error + dstream" where
  "reservedZero 0 ds = Inr ds"
| "reservedZero (Suc n) ds =
     (case readUint8 ds of
        Inl e \<Rightarrow> Inl e
      | Inr (v, ds') \<Rightarrow> if v \<noteq> 0 then Inl InvalidPropertiesHeader else reservedZero n ds')"

text \<open>The loop \<^verbatim>\<open>for (let i = 0; i < 8; i++) value.push(ds.readUint8())\<close>.\<close>

fun readValue :: "nat \<Rightarrow> dstream \<Rightarrow> nat list \<Rightarrow> error + (nat list \<times> dstream)" where
  "readValue 0 ds val = Inr (val, ds)"
| "readValue (Suc n) ds val =
     (case readUint8 ds of
        Inl e \<Rightarrow> Inl e
      | Inr (v, ds') \<Rightarrow> readValue n ds' (val @ [v]))"

text \<open>One turn of the loop \<^verbatim>\<open>while (!ds.isEof())\<close>: the key and the record it stores.\<close>

definition readEntry :: "env \<Rightarrow> dstream \<Rightarrow> error + ((jsstring \<times> fixedProperty) \<times> dstream)" where
  "readEntry env ds =
     andThen (readUint16 ds) (\<lambda>(fieldType, ds1).
     andThen (readUint16 ds1) (\<lambda>(fieldClass, ds2).
     andThen (readUint32 ds2) (\<lambda>(flags, ds3).
     let fieldName = getMapiFieldName env (padStart4 (toString16 fieldClass));
         tstr = padStart4 (toString16 fieldType)
     in
     andThen (readValue 8 ds3 []) (\<lambda>(val, ds4).
     let fieldName' = (case fieldName of
                         None \<Rightarrow> ustr ''_'' @ tstr
                       | Some nm \<Rightarrow> if nm = [] then ustr ''_'' @ tstr else nm);
         bin = map of_nat val
     in
     andThen (readFieldData tstr bin) (\<lambda>d.
       Inr ((fieldName',
             \<lparr>ftype = fieldType, typeStr = tstr, flagsWord = flags, binData = bin, fdata = d\<rparr>),
            ds4))))))"

lemma readBytes_position:
  "readBytes ds n = Inr (bs, ds') \<Longrightarrow>
     position ds' = position ds + n \<and> buffer ds' = buffer ds \<and> position ds + n \<le> byteLength ds"
  by (auto simp: readBytes_def split: if_splits)

lemma readUint8_position:
  "readUint8 ds = Inr (v, ds') \<Longrightarrow>
     position ds' = position ds + 1 \<and> buffer ds' = buffer ds \<and> position ds + 1 \<le> byteLength ds"
  by (auto simp: readUint8_def split: sum.splits dest: readBytes_position)

lemma readUint16_position:
  "readUint16 ds = Inr (v, ds') \<Longrightarrow>
     position ds' = position ds + 2 \<and> buffer ds' = buffer ds \<and> position ds + 2 \<le> byteLength ds"
  by (auto simp: readUint16_def split: sum.splits dest: readBytes_position)

lemma readUint32_position:
  "readUint32 ds = Inr (v, ds') \<Longrightarrow>
     position ds' = position ds + 4 \<and> buffer ds' = buffer ds \<and> position ds + 4 \<le> byteLength ds"
  by (auto simp: readUint32_def split: sum.splits dest: readBytes_position)

lemma readValue_position:
  "readValue n ds val = Inr (val', ds') \<Longrightarrow>
     position ds' = position ds + n \<and> buffer ds' = buffer ds
     \<and> (0 < n \<longrightarrow> position ds + n \<le> byteLength ds)"
proof (induction n arbitrary: ds val)
  case 0
  then show ?case by simp
next
  case (Suc n)
  from Suc.prems obtain v ds1 where r: "readUint8 ds = Inr (v, ds1)"
    and rest: "readValue n ds1 (val @ [v]) = Inr (val', ds')"
    by (auto split: sum.splits)
  from readUint8_position [OF r] Suc.IH [OF rest] show ?case
    by (cases n) (auto simp: byteLength_def)
qed

lemma readEntry_position:
  assumes "readEntry env ds = Inr (kv, ds')"
  shows "position ds' = position ds + 16 \<and> buffer ds' = buffer ds
         \<and> position ds + 16 \<le> byteLength ds"
  using assms
  by (auto simp: readEntry_def andThen_def Let_def byteLength_def split: sum.splits
      dest!: readUint16_position readUint32_position readValue_position)

function readEntries :: "env \<Rightarrow> dstream \<Rightarrow> rootvalues \<Rightarrow> error + rootvalues" where
  "readEntries env ds values =
     (if isEof ds then Inr values
      else case readEntry env ds of
             Inl e \<Rightarrow> Inl e
           | Inr (kv, ds') \<Rightarrow> readEntries env ds' (obj_set (fst kv) (RProperty (snd kv)) values))"
  by pat_completeness auto
termination
proof (relation "measure (\<lambda>(env, ds, values). byteLength ds - position ds)")
  show "wf (measure (\<lambda>(env, ds, values). byteLength ds - position ds))"
    by simp
next
  fix env :: env and ds :: dstream and vals :: rootvalues and x2 x y
  assume "\<not> isEof ds" and "readEntry env ds = Inr x2" and "(x, y) = x2"
  then have "readEntry env ds = Inr (x, y)" by simp
  from readEntry_position [OF this] \<open>\<not> isEof ds\<close>
  show "((env, y, obj_set (fst x) (RProperty (snd x)) vals), env, ds, vals)
        \<in> measure (\<lambda>(env, ds, values). byteLength ds - position ds)"
    by (auto simp: isEof_def byteLength_def)
qed

declare readEntries.simps [simp del]

text \<open>
  \<^verbatim>\<open>#readRootProperties\<close>: a fresh little-endian \<^verbatim>\<open>DataStream\<close> over the bytes of the stream.
\<close>

definition readRootProperties :: "env \<Rightarrow> byte list \<Rightarrow> error + rootvalues" where
  "readRootProperties env binPropertiesData =
     (let ds = seek \<lparr>buffer = binPropertiesData, position = 0\<rparr> (Some 0) in
      andThen (reservedZero 8 ds) (\<lambda>ds1.
      andThen (readUint32 ds1) (\<lambda>(nri, ds2).
      andThen (readUint32 ds2) (\<lambda>(nai, ds3).
      andThen (readUint32 ds3) (\<lambda>(rc, ds4).
      andThen (readUint32 ds4) (\<lambda>(ac, ds5).
      andThen (reservedZero 8 ds5) (\<lambda>ds6.
      readEntries env ds6
        [(ustr ''_header'',
          RHeader \<lparr>nextRecipientId = nri, nextAttachmentId = nai,
                   recipientCount = rc, attachmentCount = ac\<rparr>)])))))))"


text \<open>
  The layout of the stream in the words of the specification, to compare the decoder with:
  after the 32-byte header the stream is a sequence of 16-byte records, each a 2-byte type
  code, a 2-byte property tag, a 4-byte flags word and an 8-byte inline payload; the record
  is stored under the name of its tag, or under \<^verbatim>\<open>_\<close> and the hexadecimal type when the
  table has no name for the tag.
\<close>

definition spec_header :: "byte list \<Rightarrow> rootvalues" where
  "spec_header bs =
     [(ustr ''_header'',
       RHeader \<lparr>nextRecipientId = le_uint (take 4 (drop 8 bs)),
                nextAttachmentId = le_uint (take 4 (drop 12 bs)),
                recipientCount = le_uint (take 4 (drop 16 bs)),
                attachmentCount = le_uint (take 4 (drop 20 bs))\<rparr>)]"

definition fieldDataOf :: "jsstring \<Rightarrow> byte list \<Rightarrow> fieldData" where
  "fieldDataOf t b = (case readFieldData t b of Inr d \<Rightarrow> d | Inl e \<Rightarrow> FUndefined)"

definition spec_record :: "env \<Rightarrow> byte list \<Rightarrow> jsstring \<times> fixedProperty" where
  "spec_record env c =
     (let fieldType = le_uint (take 2 c);
          fieldClass = le_uint (take 2 (drop 2 c));
          flags = le_uint (take 4 (drop 4 c));
          payload = take 8 (drop 8 c);
          tstr = padStart4 (toString16 fieldType);
          name = (case getMapiFieldName env (padStart4 (toString16 fieldClass)) of
                    None \<Rightarrow> ustr ''_'' @ tstr
                  | Some nm \<Rightarrow> if nm = [] then ustr ''_'' @ tstr else nm)
      in (name, \<lparr>ftype = fieldType, typeStr = tstr, flagsWord = flags, binData = payload,
                 fdata = fieldDataOf tstr payload\<rparr>))"

fun spec_records :: "nat \<Rightarrow> byte list \<Rightarrow> byte list list" where
  "spec_records 0 xs = []"
| "spec_records (Suc n) xs = take 16 xs # spec_records n (drop 16 xs)"

definition spec_store :: "env \<Rightarrow> rootvalues \<Rightarrow> byte list \<Rightarrow> rootvalues" where
  "spec_store env vals c = obj_set (fst (spec_record env c)) (RProperty (snd (spec_record env c))) vals"


section \<open>The container\<close>

text \<open>
  A number that may be \<^verbatim>\<open>undefined\<close> or \<^verbatim>\<open>NaN\<close> is an \<open>int option\<close>: a read of an array
  outside its bounds gives \<^verbatim>\<open>undefined\<close>, arithmetic on it gives \<^verbatim>\<open>NaN\<close>, neither is \<^verbatim>\<open>===\<close> to a
  number, and an array indexed by either gives \<^verbatim>\<open>undefined\<close> again; \<open>None\<close> stands for both.
\<close>

type_synonym jsnum = "int option"

definition UNUSED_BLOCK :: int where "UNUSED_BLOCK = - 1"
definition END_OF_CHAIN :: int where "END_OF_CHAIN = - 2"
definition S_BIG_BLOCK_SIZE :: int where "S_BIG_BLOCK_SIZE = 0x0200"
definition L_BIG_BLOCK_SIZE :: int where "L_BIG_BLOCK_SIZE = 0x1000"
definition L_BIG_BLOCK_MARK :: int where "L_BIG_BLOCK_MARK = 12"
definition SMALL_BLOCK_SIZE :: int where "SMALL_BLOCK_SIZE = 0x0040"
definition BIG_BLOCK_MIN_DOC_SIZE :: int where "BIG_BLOCK_MIN_DOC_SIZE = 0x1000"
definition NO_INDEX :: int where "NO_INDEX = - 1"
definition PROPERTY_SIZE :: int where "PROPERTY_SIZE = 0x0080"
definition DIRECTORY :: int where "DIRECTORY = 1"
definition DOCUMENT :: int where "DOCUMENT = 2"
definition ROOT :: int where "ROOT = 5"

text \<open>\<^verbatim>\<open>a[i]\<close> on an array: \<^verbatim>\<open>undefined\<close> outside the bounds and for an index that is no number.\<close>

definition js_nth :: "'a list \<Rightarrow> jsnum \<Rightarrow> 'a option" where
  "js_nth xs i =
     (case i of
        None \<Rightarrow> None
      | Some k \<Rightarrow> if 0 \<le> k \<and> k < int (length xs) then Some (xs ! nat k) else None)"

text \<open>The remainder \<^verbatim>\<open>%\<close> has the sign of the dividend.\<close>

definition js_rem :: "int \<Rightarrow> int \<Rightarrow> int" where
  "js_rem a b = sgn a * (\<bar>a\<bar> mod \<bar>b\<bar>)"

text \<open>
  A directory entry, as \<^verbatim>\<open>#convertProperty\<close> builds it; \<open>children\<close> is \<open>None\<close> until
  \<^verbatim>\<open>#createPropertyHierarchy\<close> sets it. An entry of \<^verbatim>\<open>props\<close> is \<open>None\<close> where the source pushes \<^verbatim>\<open>null\<close>.
\<close>

record dirEntry =
  index :: int
  ptype :: int
  pname :: jsstring
  previousProperty :: int
  nextProperty :: int
  childProperty :: int
  startBlock :: int
  sizeBlock :: int
  children :: "int list option"

record msgData =
  bigBlockSize :: int
  bigBlockLength :: int
  xBlockLength :: int
  batCount :: int
  propertyStart :: int
  sbatStart :: int
  sbatCount :: int
  xbatStart :: int
  xbatCount :: int
  batData :: "jsnum list"
  sbatData :: "jsnum list"
  propertyData :: "dirEntry option list"

subsection \<open>Reads of the main stream\<close>

text \<open>
  Every function of the reader seeks before it reads from the main stream, so the position
  it leaves is never read again; the functions below return what they read and leave the
  stream out, except those that call \<^verbatim>\<open>readString\<close>, which can lengthen the stream.
\<close>

definition readInt :: "dstream \<Rightarrow> jsnum \<Rightarrow> error + int" where
  "readInt ds offset = andThen (readInt32 (seek ds offset)) (\<lambda>(v, ds'). Inr v)"

definition readShort :: "dstream \<Rightarrow> jsnum \<Rightarrow> error + int" where
  "readShort ds offset = andThen (readInt16 (seek ds offset)) (\<lambda>(v, ds'). Inr v)"

definition readByte :: "dstream \<Rightarrow> jsnum \<Rightarrow> error + int" where
  "readByte ds offset = andThen (readInt8 (seek ds offset)) (\<lambda>(v, ds'). Inr v)"

fun int32s :: "byte list \<Rightarrow> int list" where
  "int32s (b0 # b1 # b2 # b3 # rest) = to_signed 32 (le_uint [b0, b1, b2, b3]) # int32s rest"
| "int32s _ = []"

fun uint16s :: "byte list \<Rightarrow> nat list" where
  "uint16s (b0 # b1 # rest) = le_uint [b0, b1] # uint16s rest"
| "uint16s _ = []"

definition readInt32Array :: "dstream \<Rightarrow> nat \<Rightarrow> error + int list" where
  "readInt32Array ds n = andThen (readBytes ds (4 * n)) (\<lambda>(bs, ds'). Inr (int32s bs))"

definition readInt8Array :: "dstream \<Rightarrow> nat \<Rightarrow> error + int list" where
  "readInt8Array ds n =
     andThen (readBytes ds n) (\<lambda>(bs, ds'). Inr (map (\<lambda>b. to_signed 8 (unat b)) bs))"

text \<open>
  \<^verbatim>\<open>readUint8Array(length)\<close> with a length that is an integer: a negative length is refused by
  the typed array constructor.
\<close>

definition readUint8Array :: "dstream \<Rightarrow> int \<Rightarrow> error + byte list" where
  "readUint8Array ds len =
     (if len < 0 then Inl RangeError
      else andThen (readBytes ds (nat len)) (\<lambda>(bs, ds'). Inr bs))"

text \<open>
  \<^verbatim>\<open>readUCS2String(n / 2)\<close>, where \<open>n\<close> is an integer: \<^verbatim>\<open>new Uint16Array\<close> refuses a negative
  length and truncates a fractional one downwards, after which the copy of \<open>n\<close> bytes does
  not fit the array, so an odd \<open>n\<close> throws as well.
\<close>

definition readUCS2String_half :: "dstream \<Rightarrow> int \<Rightarrow> error + jsstring" where
  "readUCS2String_half ds n =
     (if n < 0 \<or> odd n then Inl RangeError
      else andThen (readBytes ds (nat n)) (\<lambda>(bs, ds'). Inr (uint16s bs)))"

text \<open>
  \<^verbatim>\<open>readString(length)\<close> maps the bytes in place. \<^verbatim>\<open>#realloc\<close> first lengthens the stream with
  zero bytes when the read ends past its end, so this read does not throw for a length that
  is not negative, and the stream it leaves can be longer.
\<close>

definition readString :: "dstream \<Rightarrow> int \<Rightarrow> error + (jsstring \<times> dstream)" where
  "readString ds len =
     (if len < 0 then Inl RangeError
      else let req = position ds + nat len;
               buf = buffer ds @ replicate (req - byteLength ds) 0
           in Inr (map unat (take (nat len) (drop (position ds) buf)),
                   ds\<lparr>buffer := buf, position := req\<rparr>))"

subsection \<open>Allocation tables\<close>

definition getBlockOffsetAt :: "msgData \<Rightarrow> jsnum \<Rightarrow> jsnum" where
  "getBlockOffsetAt msgData offset = map_option (\<lambda>off. (off + 1) * bigBlockSize msgData) offset"

definition getBlockAt :: "dstream \<Rightarrow> msgData \<Rightarrow> jsnum \<Rightarrow> error + int list" where
  "getBlockAt ds msgData offset =
     (let startOffset = getBlockOffsetAt msgData offset
      in readInt32Array (seek ds startOffset) (nat (bigBlockLength msgData)))"

definition getNextBlockInner :: "dstream \<Rightarrow> msgData \<Rightarrow> jsnum \<Rightarrow> jsnum list \<Rightarrow> error + jsnum" where
  "getNextBlockInner ds msgData offset blockOffsetData =
     (let currentBlock = map_option (\<lambda>off. off div bigBlockLength msgData) offset;
          currentBlockIndex = map_option (\<lambda>off. js_rem off (bigBlockLength msgData)) offset;
          startBlockOffset = Option.bind (js_nth blockOffsetData currentBlock) id
      in andThen (getBlockAt ds msgData startBlockOffset)
           (\<lambda>block. Inr (js_nth block currentBlockIndex)))"

definition getNextBlock :: "dstream \<Rightarrow> msgData \<Rightarrow> jsnum \<Rightarrow> error + jsnum" where
  "getNextBlock ds msgData offset = getNextBlockInner ds msgData offset (batData msgData)"

definition getNextBlockSmall :: "dstream \<Rightarrow> msgData \<Rightarrow> jsnum \<Rightarrow> error + jsnum" where
  "getNextBlockSmall ds msgData offset = getNextBlockInner ds msgData offset (sbatData msgData)"

subsection \<open>Header and allocation table builder\<close>

definition FILE_HEADER :: "int list" where
  "FILE_HEADER = map (\<lambda>b. to_signed 8 b) [0xD0, 0xCF, 0x11, 0xE0, 0xA1, 0xB1, 0x1A, 0xE1]"

definition isMSGFile :: "dstream \<Rightarrow> error + bool" where
  "isMSGFile ds =
     andThen (readInt8Array (seek ds (Some 0)) (length FILE_HEADER)) (\<lambda>a. Inr (FILE_HEADER = a))"

text \<open>\<^verbatim>\<open>#headerData\<close>; the three tables are filled in by \<^verbatim>\<open>#parseMsgData\<close>.\<close>

definition headerData :: "dstream \<Rightarrow> error + msgData" where
  "headerData ds =
     andThen (readByte ds (Some 30)) (\<lambda>mark.
     let bbs = (if mark = L_BIG_BLOCK_MARK then L_BIG_BLOCK_SIZE else S_BIG_BLOCK_SIZE) in
     andThen (readInt ds (Some 0x2C)) (\<lambda>batCount'.
     andThen (readInt ds (Some 0x30)) (\<lambda>propertyStart'.
     andThen (readInt ds (Some 0x3C)) (\<lambda>sbatStart'.
     andThen (readInt ds (Some 0x40)) (\<lambda>sbatCount'.
     andThen (readInt ds (Some 0x44)) (\<lambda>xbatStart'.
     andThen (readInt ds (Some 0x48)) (\<lambda>xbatCount'.
       Inr \<lparr>bigBlockSize = bbs, bigBlockLength = bbs div 4, xBlockLength = bbs div 4 - 1,
            batCount = batCount', propertyStart = propertyStart', sbatStart = sbatStart',
            sbatCount = sbatCount', xbatStart = xbatStart', xbatCount = xbatCount',
            batData = [], sbatData = [], propertyData = []\<rparr>)))))))"

definition batCountInHeader :: "msgData \<Rightarrow> int" where
  "batCountInHeader msgData =
     (let maxBatsInHeader = (S_BIG_BLOCK_SIZE - 0x4c) div 4 in min (batCount msgData) maxBatsInHeader)"

text \<open>The loop \<^verbatim>\<open>for (i = 0; i < result.length; i++) result[i] = ds.readInt32()\<close>.\<close>

fun readInt32s :: "nat \<Rightarrow> dstream \<Rightarrow> jsnum list \<Rightarrow> error + jsnum list" where
  "readInt32s 0 ds result = Inr result"
| "readInt32s (Suc k) ds result =
     andThen (readInt32 ds) (\<lambda>(v, ds'). readInt32s k ds' (result @ [Some v]))"

text \<open>\<^verbatim>\<open>#batData\<close>; \<^verbatim>\<open>new Array(n)\<close> throws \<^verbatim>\<open>RangeError\<close> for a negative \<open>n\<close>.\<close>

definition batData_of :: "dstream \<Rightarrow> msgData \<Rightarrow> error + jsnum list" where
  "batData_of ds msgData =
     (let n = batCountInHeader msgData in
      if n < 0 then Inl RangeError
      else readInt32s (nat n) (seek ds (Some 0x4c)) [])"

text \<open>
  \<^verbatim>\<open>#sbatData\<close>: the loop runs while \<^verbatim>\<open>i < msgData.sbatCount\<close> and the chain has not ended; the
  first argument counts the turns that \<^verbatim>\<open>i\<close> leaves.
\<close>

fun sbatLoop :: "dstream \<Rightarrow> msgData \<Rightarrow> nat \<Rightarrow> jsnum \<Rightarrow> jsnum list \<Rightarrow> error + jsnum list" where
  "sbatLoop ds msgData 0 startIndex result = Inr result"
| "sbatLoop ds msgData (Suc k) startIndex result =
     (if startIndex = Some END_OF_CHAIN then Inr result
      else andThen (getNextBlock ds msgData startIndex)
             (\<lambda>next. sbatLoop ds msgData k next (result @ [startIndex])))"

definition sbatData_of :: "dstream \<Rightarrow> msgData \<Rightarrow> error + jsnum list" where
  "sbatData_of ds msgData =
     sbatLoop ds msgData (nat (sbatCount msgData)) (Some (sbatStart msgData)) []"

text \<open>\<^verbatim>\<open>#xbatData\<close>: the inner loop over \<^verbatim>\<open>j\<close> with its \<^verbatim>\<open>break\<close>, and the outer loop over \<^verbatim>\<open>i\<close>.\<close>

fun xbatBlocks :: "int list \<Rightarrow> nat \<Rightarrow> nat \<Rightarrow> jsnum list \<Rightarrow> jsnum list" where
  "xbatBlocks xBatBlock j 0 bat = bat"
| "xbatBlocks xBatBlock j (Suc k) bat =
     (let blockStartAt = js_nth xBatBlock (Some (int j)) in
      if blockStartAt = Some UNUSED_BLOCK \<or> blockStartAt = Some END_OF_CHAIN then bat
      else xbatBlocks xBatBlock (Suc j) k (bat @ [blockStartAt]))"

fun xbatLoop :: "dstream \<Rightarrow> msgData \<Rightarrow> nat \<Rightarrow> jsnum \<Rightarrow> int \<Rightarrow> jsnum list \<Rightarrow> error + jsnum list" where
  "xbatLoop ds msgData 0 nextBlockAt remainingBlocks bat = Inr bat"
| "xbatLoop ds msgData (Suc k) nextBlockAt remainingBlocks bat =
     andThen (getBlockAt ds msgData nextBlockAt) (\<lambda>xBatBlock.
       let nextBlockAt' = js_nth xBatBlock (Some (xBlockLength msgData));
           blocksToProcess = min remainingBlocks (xBlockLength msgData)
       in xbatLoop ds msgData k nextBlockAt' (remainingBlocks - blocksToProcess)
            (xbatBlocks xBatBlock 0 (nat blocksToProcess) bat))"

definition xbatData :: "dstream \<Rightarrow> msgData \<Rightarrow> error + msgData" where
  "xbatData ds msgData =
     (let batCount' = batCountInHeader msgData;
          batCountTotal = batCount msgData;
          remainingBlocks = batCountTotal - batCount'
      in andThen (xbatLoop ds msgData (nat (xbatCount msgData)) (Some (xbatStart msgData))
                    remainingBlocks (batData msgData))
           (\<lambda>bat. Inr (msgData\<lparr>batData := bat\<rparr>)))"

subsection \<open>Directory entries\<close>

definition jsadd :: "jsnum \<Rightarrow> int \<Rightarrow> jsnum" where
  "jsadd a k = map_option (\<lambda>x. x + k) a"

definition readStringAt :: "dstream \<Rightarrow> jsnum \<Rightarrow> int \<Rightarrow> error + jsstring" where
  "readStringAt ds offset n = readUCS2String_half (seek ds offset) n"

text \<open>\<^verbatim>\<open>#convertName\<close>; the second argument of \<open>readStringAt\<close> is \<^verbatim>\<open>nameLength\<close>, not its half.\<close>

definition convertName :: "dstream \<Rightarrow> jsnum \<Rightarrow> error + jsstring" where
  "convertName ds offset =
     andThen (readShort ds (jsadd offset 0x40)) (\<lambda>nameLength.
       if nameLength < 1 then Inr []
       else andThen (readStringAt ds offset nameLength) (\<lambda>s. Inr (filter (\<lambda>c. c \<noteq> 0) s)))"

definition convertProperty :: "dstream \<Rightarrow> int \<Rightarrow> jsnum \<Rightarrow> error + dirEntry" where
  "convertProperty ds idx offset =
     andThen (readByte ds (jsadd offset 0x42)) (\<lambda>ty.
     andThen (convertName ds offset) (\<lambda>nm.
     andThen (readInt ds (jsadd offset 0x44)) (\<lambda>prev.
     andThen (readInt ds (jsadd offset 0x48)) (\<lambda>nxt.
     andThen (readInt ds (jsadd offset 0x4C)) (\<lambda>child.
     andThen (readInt ds (jsadd offset 0x74)) (\<lambda>start.
     andThen (readInt ds (jsadd offset 0x78)) (\<lambda>sz.
       Inr \<lparr>index = idx, ptype = ty, pname = nm, previousProperty = prev, nextProperty = nxt,
            childProperty = child, startBlock = start, sizeBlock = sz,
            children = None\<rparr>)))))))"

text \<open>The loop of \<^verbatim>\<open>#convertBlockToProperties\<close>; the first argument counts the turns left.\<close>

fun convertLoop ::
  "dstream \<Rightarrow> nat \<Rightarrow> jsnum \<Rightarrow> dirEntry option list \<Rightarrow> error + dirEntry option list" where
  "convertLoop ds 0 propertyOffset props = Inr props"
| "convertLoop ds (Suc k) propertyOffset props =
     andThen (readByte ds (jsadd propertyOffset 0x42)) (\<lambda>propertyType.
       if propertyType = ROOT \<or> propertyType = DIRECTORY \<or> propertyType = DOCUMENT
       then andThen (convertProperty ds (int (length props)) propertyOffset) (\<lambda>p.
              convertLoop ds k (jsadd propertyOffset PROPERTY_SIZE) (props @ [Some p]))
       else convertLoop ds k (jsadd propertyOffset PROPERTY_SIZE) (props @ [None]))"

definition convertBlockToProperties ::
  "dstream \<Rightarrow> msgData \<Rightarrow> jsnum \<Rightarrow> dirEntry option list \<Rightarrow> error + dirEntry option list" where
  "convertBlockToProperties ds msgData propertyBlockOffset props =
     (let propertyCount = bigBlockSize msgData div PROPERTY_SIZE;
          propertyOffset = getBlockOffsetAt msgData propertyBlockOffset
      in convertLoop ds (nat propertyCount) propertyOffset props)"

text \<open>
  The loop \<^verbatim>\<open>while (currentOffset !== END_OF_CHAIN)\<close> of \<^verbatim>\<open>#propertyData\<close>. Nothing bounds the
  number of its turns; \<open>None\<close> is the loop that never ends.
\<close>

partial_function (option) propertyLoop ::
  "dstream \<Rightarrow> msgData \<Rightarrow> jsnum \<Rightarrow> dirEntry option list \<Rightarrow> (error + dirEntry option list) option"
where
  "propertyLoop ds msgData currentOffset props =
     (if currentOffset = Some END_OF_CHAIN then Some (Inr props)
      else case convertBlockToProperties ds msgData currentOffset props of
             Inl e \<Rightarrow> Some (Inl e)
           | Inr props' \<Rightarrow>
               (case getNextBlock ds msgData currentOffset of
                  Inl e \<Rightarrow> Some (Inl e)
                | Inr next \<Rightarrow> propertyLoop ds msgData next props'))"

subsection \<open>Tree reconstruction\<close>

text \<open>
  \<^verbatim>\<open>props[i]\<close> under \<^verbatim>\<open>if (!current)\<close>: \<open>None\<close> for an index outside the array and for a
  \<^verbatim>\<open>null\<close> slot.
\<close>

definition lookupProp :: "dirEntry option list \<Rightarrow> int \<Rightarrow> dirEntry option" where
  "lookupProp props i = Option.bind (js_nth props (Some i)) id"

text \<open>\<^verbatim>\<open>nodeProperty.children.push(currentIndex)\<close>, for the node at position \<open>node\<close> of \<^verbatim>\<open>props\<close>.\<close>

definition pushChild :: "dirEntry option list \<Rightarrow> nat \<Rightarrow> int \<Rightarrow> error + dirEntry option list" where
  "pushChild props node currentIndex =
     (case lookupProp props (int node) of
        None \<Rightarrow> Inl TypeError
      | Some p \<Rightarrow>
          (case children p of
             None \<Rightarrow> Inl TypeError
           | Some cs \<Rightarrow> Inr (props[node := Some (p\<lparr>children := Some (cs @ [currentIndex])\<rparr>)])))"

text \<open>
  \<^verbatim>\<open>#createPropertyHierarchy\<close> and its worklist loop. The node is given by its position in
  \<^verbatim>\<open>props\<close>: the source passes \<^verbatim>\<open>props[0]\<close> and then \<^verbatim>\<open>props[currentIndex]\<close>. The worklist is a
  queue (\<^verbatim>\<open>shift\<close> takes from the front, \<^verbatim>\<open>push\<close> adds at the back). Neither the loop nor the
  recursion is bounded, so both take fuel: the first argument bounds the number of calls and
  turns, and \<open>None\<close> is a run that needs more.
\<close>

fun createPropertyHierarchy ::
  "nat \<Rightarrow> dirEntry option list \<Rightarrow> nat \<Rightarrow> (error + dirEntry option list) option"
and hierarchyLoop ::
  "nat \<Rightarrow> dirEntry option list \<Rightarrow> nat \<Rightarrow> int list \<Rightarrow> (error + dirEntry option list) option"
where
  "createPropertyHierarchy 0 props node = None"
| "createPropertyHierarchy (Suc n) props node =
     (case lookupProp props (int node) of
        None \<Rightarrow> Some (Inl TypeError)
      | Some nodeProperty \<Rightarrow>
          if childProperty nodeProperty = NO_INDEX then Some (Inr props)
          else hierarchyLoop n (props[node := Some (nodeProperty\<lparr>children := Some []\<rparr>)]) node
                 [childProperty nodeProperty])"
| "hierarchyLoop 0 props node work = None"
| "hierarchyLoop (Suc n) props node [] = Some (Inr props)"
| "hierarchyLoop (Suc n) props node (currentIndex # work) =
     (case lookupProp props currentIndex of
        None \<Rightarrow> hierarchyLoop n props node work
      | Some current \<Rightarrow>
          (case pushChild props node currentIndex of
             Inl e \<Rightarrow> Some (Inl e)
           | Inr props1 \<Rightarrow>
               (case (if ptype current = DIRECTORY
                      then createPropertyHierarchy n props1 (nat currentIndex)
                      else Some (Inr props1)) of
                  None \<Rightarrow> None
                | Some (Inl e) \<Rightarrow> Some (Inl e)
                | Some (Inr props2) \<Rightarrow>
                    hierarchyLoop n props2 node
                      (work
                       @ (if previousProperty current \<noteq> NO_INDEX
                          then [previousProperty current] else [])
                       @ (if nextProperty current \<noteq> NO_INDEX
                          then [nextProperty current] else [])))))"

text \<open>\<^verbatim>\<open>#propertyData\<close>: the directory chain walk, then the hierarchy from entry 0.\<close>

definition propertyData_of ::
  "nat \<Rightarrow> dstream \<Rightarrow> msgData \<Rightarrow> (error + dirEntry option list) option" where
  "propertyData_of n ds msgData =
     (case propertyLoop ds msgData (Some (propertyStart msgData)) [] of
        None \<Rightarrow> None
      | Some (Inl e) \<Rightarrow> Some (Inl e)
      | Some (Inr props) \<Rightarrow> createPropertyHierarchy n props 0)"

section \<open>Stream resolver\<close>

text \<open>
  The values of a field: \<^verbatim>\<open>null\<close>, a string, a \<^verbatim>\<open>Uint8Array\<close>, a number, a boolean, an array of
  references to bags (the \<^verbatim>\<open>attachments\<close> and \<^verbatim>\<open>recipients\<close> lists), or the object that
  \<^verbatim>\<open>#readRootProperties\<close> returns.
\<close>

datatype jsval =
    Null
  | Str jsstring
  | Bytes "byte list"
  | Num int
  | Bool bool
  | Refs "nat list"
  | Root rootvalues

text \<open>The keys of \<^verbatim>\<open>TYPE_MAPPING\<close> and of the two \<^verbatim>\<open>dataType\<close> tables.\<close>

datatype dataType = TString | TUnicode | TBinary

definition jsplus :: "jsnum \<Rightarrow> jsnum \<Rightarrow> jsnum" where
  "jsplus a b = (case a of None \<Rightarrow> None | Some x \<Rightarrow> map_option (\<lambda>y. x + y) b)"

text \<open>
  The extractors of \<^verbatim>\<open>extractorFieldValue.sbat.dataType\<close>, which seek to an offset inside the
  mini stream. (The source names them \<^verbatim>\<open>extractBat...\<close>, and those of the \<^verbatim>\<open>bat\<close> table
  \<^verbatim>\<open>extractSbat...\<close>.)
\<close>

definition extractBatString ::
  "dstream \<Rightarrow> msgData \<Rightarrow> jsnum \<Rightarrow> jsnum \<Rightarrow> int \<Rightarrow> error + (jsstring \<times> dstream)" where
  "extractBatString ds msgData blockStartOffset bigBlockOffset blockSize =
     readString (seek ds (jsplus blockStartOffset bigBlockOffset)) blockSize"

definition extractBatUnicode ::
  "dstream \<Rightarrow> msgData \<Rightarrow> jsnum \<Rightarrow> jsnum \<Rightarrow> int \<Rightarrow> error + (jsstring \<times> dstream)" where
  "extractBatUnicode ds msgData blockStartOffset bigBlockOffset blockSize =
     andThen (readUCS2String_half (seek ds (jsplus blockStartOffset bigBlockOffset)) blockSize)
       (\<lambda>s. Inr (s, ds))"

definition extractBatBinary ::
  "dstream \<Rightarrow> msgData \<Rightarrow> jsnum \<Rightarrow> jsnum \<Rightarrow> int \<Rightarrow> error + (byte list \<times> dstream)" where
  "extractBatBinary ds msgData blockStartOffset bigBlockOffset blockSize =
     andThen (readUint8Array (seek ds (jsplus blockStartOffset bigBlockOffset)) blockSize)
       (\<lambda>bs. Inr (bs, ds))"

definition sbat_dataType ::
  "dataType \<Rightarrow> dstream \<Rightarrow> msgData \<Rightarrow> jsnum \<Rightarrow> jsnum \<Rightarrow> int \<Rightarrow> error + (jsval \<times> dstream)" where
  "sbat_dataType t ds msgData blockStartOffset bigBlockOffset blockSize =
     (case t of
        TString \<Rightarrow> andThen (extractBatString ds msgData blockStartOffset bigBlockOffset blockSize)
                     (\<lambda>(s, ds'). Inr (Str s, ds'))
      | TUnicode \<Rightarrow> andThen (extractBatUnicode ds msgData blockStartOffset bigBlockOffset blockSize)
                      (\<lambda>(s, ds'). Inr (Str s, ds'))
      | TBinary \<Rightarrow> andThen (extractBatBinary ds msgData blockStartOffset bigBlockOffset blockSize)
                     (\<lambda>(bs, ds'). Inr (Bytes bs, ds')))"

text \<open>The extractors of \<^verbatim>\<open>extractorFieldValue.bat.dataType\<close>, which read at the position.\<close>

definition bat_dataType :: "dataType \<Rightarrow> dstream \<Rightarrow> dirEntry \<Rightarrow> error + (jsval \<times> dstream)" where
  "bat_dataType t ds fieldProperty =
     (case t of
        TString \<Rightarrow> andThen (readString ds (sizeBlock fieldProperty)) (\<lambda>(s, ds'). Inr (Str s, ds'))
      | TUnicode \<Rightarrow> andThen (readUCS2String_half ds (sizeBlock fieldProperty)) (\<lambda>s. Inr (Str s, ds))
      | TBinary \<Rightarrow> andThen (readUint8Array ds (sizeBlock fieldProperty)) (\<lambda>bs. Inr (Bytes bs, ds)))"

text \<open>
  \<^verbatim>\<open>extractDataViaBat\<close>: seek to the first byte of the sector \<^verbatim>\<open>startBlock\<close> and let the
  extractor read \<^verbatim>\<open>sizeBlock\<close> bytes from there.
\<close>

definition extractDataViaBat ::
  "dstream \<Rightarrow> msgData \<Rightarrow> dirEntry \<Rightarrow> dataType \<Rightarrow> error + (jsval \<times> dstream)" where
  "extractDataViaBat ds msgData fieldProperty t =
     (let offset = getBlockOffsetAt msgData (Some (startBlock fieldProperty))
      in bat_dataType t (seek ds offset) fieldProperty)"

text \<open>The loop \<^verbatim>\<open>for (i = 0; i < bigBlockNumber; i++) nextBlock = getNextBlock(nextBlock)\<close>.\<close>

fun walkBlocks :: "dstream \<Rightarrow> msgData \<Rightarrow> nat \<Rightarrow> jsnum \<Rightarrow> error + jsnum" where
  "walkBlocks ds msgData 0 nextBlock = Inr nextBlock"
| "walkBlocks ds msgData (Suc k) nextBlock =
     andThen (getNextBlock ds msgData nextBlock) (\<lambda>nb. walkBlocks ds msgData k nb)"

text \<open>
  \<^verbatim>\<open>#readDataByBlockSmall\<close>, with the extractor as its last argument as in the source. A
  \<^verbatim>\<open>bigBlockNumber\<close> that is \<^verbatim>\<open>NaN\<close> or negative gives no turn of the loop.
\<close>

definition readDataByBlockSmall ::
  "dstream \<Rightarrow> msgData \<Rightarrow> jsnum \<Rightarrow> int
     \<Rightarrow> (dstream \<Rightarrow> msgData \<Rightarrow> jsnum \<Rightarrow> jsnum \<Rightarrow> int \<Rightarrow> error + 'a) \<Rightarrow> error + 'a" where
  "readDataByBlockSmall ds msgData startBlock' blockSize dataTypeExtractor =
     (let byteOffset = map_option (\<lambda>b. b * SMALL_BLOCK_SIZE) startBlock';
          bigBlockNumber = map_option (\<lambda>b. b div bigBlockSize msgData) byteOffset;
          bigBlockOffset = map_option (\<lambda>b. js_rem b (bigBlockSize msgData)) byteOffset
      in case lookupProp (propertyData msgData) 0 of
           None \<Rightarrow> Inl TypeError
         | Some rootProp \<Rightarrow>
             andThen (walkBlocks ds msgData (case bigBlockNumber of None \<Rightarrow> 0 | Some k \<Rightarrow> nat k)
                        (Some (startBlock rootProp)))
               (\<lambda>nextBlock.
                  let blockStartOffset = getBlockOffsetAt msgData nextBlock
                  in dataTypeExtractor ds msgData blockStartOffset bigBlockOffset blockSize))"

text \<open>
  The loop \<^verbatim>\<open>while (nextBlockSmall !== END_OF_CHAIN)\<close> of \<^verbatim>\<open>#getChainByBlockSmall\<close>; \<open>None\<close> is
  the loop that never ends.
\<close>

partial_function (option) chainLoop ::
  "dstream \<Rightarrow> msgData \<Rightarrow> jsnum \<Rightarrow> jsnum list \<Rightarrow> (error + jsnum list) option"
where
  "chainLoop ds msgData nextBlockSmall blockChain =
     (if nextBlockSmall = Some END_OF_CHAIN then Some (Inr blockChain)
      else case getNextBlockSmall ds msgData nextBlockSmall of
             Inl e \<Rightarrow> Some (Inl e)
           | Inr next \<Rightarrow> chainLoop ds msgData next (blockChain @ [nextBlockSmall]))"

definition getChainByBlockSmall ::
  "dstream \<Rightarrow> msgData \<Rightarrow> dirEntry \<Rightarrow> (error + jsnum list) option" where
  "getChainByBlockSmall ds msgData fieldProperty =
     chainLoop ds msgData (Some (startBlock fieldProperty)) []"

text \<open>
  The inner loop \<^verbatim>\<open>for (j = 0; j < data.length; j++) resultData[idx++] = data[j]\<close>: a write past
  the end of a typed array is ignored, as \<open>xs[i := v]\<close> is for \<open>i \<ge> length xs\<close>.
\<close>

fun copyData :: "byte list \<Rightarrow> nat \<Rightarrow> byte list \<Rightarrow> byte list \<times> nat" where
  "copyData resultData idx [] = (resultData, idx)"
| "copyData resultData idx (d # data) = copyData (resultData[idx := d]) (Suc idx) data"

text \<open>The outer loop over the chain.\<close>

fun copyChain ::
  "dstream \<Rightarrow> msgData \<Rightarrow> jsnum list \<Rightarrow> byte list \<Rightarrow> nat \<Rightarrow> error + byte list" where
  "copyChain ds msgData [] resultData idx = Inr resultData"
| "copyChain ds msgData (c # chain) resultData idx =
     andThen (readDataByBlockSmall ds msgData c SMALL_BLOCK_SIZE extractBatBinary) (\<lambda>(data, ds').
       case copyData resultData idx data of
         (resultData', idx') \<Rightarrow> copyChain ds' msgData chain resultData' idx')"

text \<open>
  \<^verbatim>\<open>#readChainDataByBlockSmall\<close>: \<^verbatim>\<open>new Int8Array(sizeBlock)\<close> throws for a negative size and is
  filled with zeros otherwise; the extractor then reads from a fresh stream over it.
\<close>

definition readChainDataByBlockSmall ::
  "dstream \<Rightarrow> msgData \<Rightarrow> dirEntry \<Rightarrow> jsnum list \<Rightarrow> dataType \<Rightarrow> error + (jsval \<times> dstream)" where
  "readChainDataByBlockSmall ds msgData fieldProperty chain t =
     (if sizeBlock fieldProperty < 0 then Inl RangeError
      else andThen (copyChain ds msgData chain (replicate (nat (sizeBlock fieldProperty)) 0) 0)
             (\<lambda>resultData.
                let localDs = \<lparr>buffer = resultData, position = 0\<rparr>
                in andThen (sbat_dataType t localDs msgData (Some 0) (Some 0) (sizeBlock fieldProperty))
                     (\<lambda>(v, localDs'). Inr (v, ds))))"

text \<open>\<^verbatim>\<open>extractDataViaSbat\<close>.\<close>

definition extractDataViaSbat ::
  "dstream \<Rightarrow> msgData \<Rightarrow> dirEntry \<Rightarrow> dataType \<Rightarrow> (error + (jsval \<times> dstream)) option" where
  "extractDataViaSbat ds msgData fieldProperty t =
     (case getChainByBlockSmall ds msgData fieldProperty of
        None \<Rightarrow> None
      | Some (Inl e) \<Rightarrow> Some (Inl e)
      | Some (Inr chain) \<Rightarrow>
          if length chain = 1
          then Some (readDataByBlockSmall ds msgData (Some (startBlock fieldProperty))
                       (sizeBlock fieldProperty) (sbat_dataType t))
          else if length chain > 1
          then Some (readChainDataByBlockSmall ds msgData fieldProperty chain t)
          else Some (Inr (Null, ds)))"

text \<open>
  \<^verbatim>\<open>#getFieldValue\<close>: the choice of \<^verbatim>\<open>valueExtractor\<close> by the declared size, and the call of its
  \<^verbatim>\<open>extractor\<close> with the \<^verbatim>\<open>dataType\<close> entry. The callers pass one of the three keys of the
  tables, so the entry is always found.
\<close>

datatype valueExtractor = Sbat | Bat

definition valueExtractor_of :: "dirEntry \<Rightarrow> valueExtractor" where
  "valueExtractor_of fieldProperty =
     (if sizeBlock fieldProperty < BIG_BLOCK_MIN_DOC_SIZE then Sbat else Bat)"

definition getFieldValue ::
  "dstream \<Rightarrow> msgData \<Rightarrow> dirEntry \<Rightarrow> dataType \<Rightarrow> (error + (jsval \<times> dstream)) option" where
  "getFieldValue ds msgData fieldProperty typeMapped =
     (case valueExtractor_of fieldProperty of
        Sbat \<Rightarrow> extractDataViaSbat ds msgData fieldProperty typeMapped
      | Bat \<Rightarrow> Some (extractDataViaBat ds msgData fieldProperty typeMapped))"

section \<open>Field extractor\<close>

text \<open>
  The bags are JavaScript objects that the extractor fills in place, and a bag is reachable
  from the \<^verbatim>\<open>attachments\<close> or \<^verbatim>\<open>recipients\<close> array of another; so they live in a store, a list
  of bags addressed by position, and a new object takes the next position. A bag is the list
  of its own properties in the order of their creation.
\<close>

type_synonym bag = "(jsstring \<times> jsval) list"
type_synonym heap = "bag list"

definition bagAt :: "heap \<Rightarrow> nat \<Rightarrow> bag" where
  "bagAt h a = (if a < length h then h ! a else [])"

definition obj_get :: "bag \<Rightarrow> jsstring \<Rightarrow> jsval option" where
  "obj_get b k = map_of b k"

text \<open>\<^verbatim>\<open>fields[k] = v\<close> on the bag at address \<open>a\<close>.\<close>

definition setField :: "heap \<Rightarrow> nat \<Rightarrow> jsstring \<Rightarrow> jsval \<Rightarrow> heap" where
  "setField h a k v = h[a := obj_set k v (bagAt h a)]"

text \<open>The truth value of \<^verbatim>\<open>fields[k]\<close> in a condition; \<open>None\<close> is \<^verbatim>\<open>undefined\<close>.\<close>

fun truthy :: "jsval option \<Rightarrow> bool" where
  "truthy None = False"
| "truthy (Some Null) = False"
| "truthy (Some (Str s)) = (s \<noteq> [])"
| "truthy (Some (Bytes b)) = True"
| "truthy (Some (Num n)) = (n \<noteq> 0)"
| "truthy (Some (Bool b)) = b"
| "truthy (Some (Refs r)) = True"
| "truthy (Some (Root r)) = True"

fun toString10 :: "nat \<Rightarrow> jsstring" where
  "toString10 n = (if n < 10 then [48 + n] else toString10 (n div 10) @ [48 + n mod 10])"

declare toString10.simps [simp del]

text \<open>\<^verbatim>\<open>s.indexOf(p) === 0\<close> and \<^verbatim>\<open>s.indexOf(p) !== -1\<close>.\<close>

definition startsWith :: "jsstring \<Rightarrow> jsstring \<Rightarrow> bool" where
  "startsWith p s = (take (length p) s = p)"

fun containsStr :: "jsstring \<Rightarrow> jsstring \<Rightarrow> bool" where
  "containsStr p [] = (p = [])"
| "containsStr p (c # s) = (startsWith p (c # s) \<or> containsStr p s)"

definition TYPE_MAPPING :: "jsstring \<Rightarrow> dataType option" where
  "TYPE_MAPPING k =
     (if k = ustr ''001e'' then Some TString
      else if k = ustr ''001f'' then Some TUnicode
      else if k = ustr ''0102'' then Some TBinary
      else None)"

definition isAddPropertyValue :: "jsstring \<Rightarrow> dataType option \<Rightarrow> bool" where
  "isAddPropertyValue fieldName fieldTypeMapped =
     (fieldName \<noteq> ustr ''Body'' \<or> fieldTypeMapped \<noteq> Some TBinary)"

text \<open>
  \<^verbatim>\<open>#applyValueConverter\<close>; \<^verbatim>\<open>TextDecoder.decode\<close> accepts a \<^verbatim>\<open>Uint8Array\<close> and throws
  \<^verbatim>\<open>TypeError\<close> for \<^verbatim>\<open>null\<close>.
\<close>

definition applyValueConverter :: "env \<Rightarrow> jsstring \<Rightarrow> dataType option \<Rightarrow> jsval \<Rightarrow> error + jsval" where
  "applyValueConverter env fieldName fieldTypeMapped fieldValue =
     (if fieldTypeMapped = Some TBinary \<and> fieldName = ustr ''BodyHtml''
      then (case fieldValue of Bytes b \<Rightarrow> Inr (Str (utf8Decode env b)) | _ \<Rightarrow> Inl TypeError)
      else Inr fieldValue)"

definition getFieldType :: "env \<Rightarrow> dirEntry \<Rightarrow> jsstring" where
  "getFieldType env fieldProperty =
     (let v = toLowerCase env (drop 12 (pname fieldProperty)) in take 4 (drop 4 v))"

text \<open>
  The loop \<^verbatim>\<open>while (fields[fieldName + suffix]) { offset++; suffix = '-' + offset; }\<close>; it
  returns the suffix.
\<close>

partial_function (option) suffixLoop :: "bag \<Rightarrow> jsstring \<Rightarrow> jsstring \<Rightarrow> nat \<Rightarrow> jsstring option"
where
  "suffixLoop fields' fieldName suffix offset =
     (if truthy (obj_get fields' (fieldName @ suffix))
      then suffixLoop fields' fieldName (ustr ''-'' @ toString10 (Suc offset)) (Suc offset)
      else Some suffix)"

text \<open>\<^verbatim>\<open>#fieldsDataDocument\<close> on the bag at address \<open>fields\<close>.\<close>

definition fieldsDataDocument ::
  "env \<Rightarrow> msgData \<Rightarrow> dirEntry \<Rightarrow> nat \<Rightarrow> dstream \<times> heap \<Rightarrow> (error + dstream \<times> heap) option" where
  "fieldsDataDocument env msgData documentProperty fields' st =
     (case st of (ds, h) \<Rightarrow>
      let v = toLowerCase env (drop 12 (pname documentProperty));
          fieldClass = take 4 v;
          fieldType = take 4 (drop 4 v);
          fieldName0 = (case getMapiFieldName env fieldClass of
                          Some nm \<Rightarrow> nm
                        | None \<Rightarrow> ustr ''unknown_'' @ fieldClass)
      in case suffixLoop (bagAt h fields') fieldName0 [] 1 of
           None \<Rightarrow> None
         | Some suffix \<Rightarrow>
             let fieldName = fieldName0 @ suffix;
                 fieldTypeMapped = TYPE_MAPPING fieldType;
                 attach = (\<lambda>(ds', h').
                   if fieldClass = ustr ''3701''
                   then (ds', setField (setField h' fields' (ustr ''dataId'')
                                          (Num (index documentProperty)))
                                fields' (ustr ''contentLength'') (Num (sizeBlock documentProperty)))
                   else (ds', h'))
             in if fieldName \<noteq> []
                then (case getFieldValue ds msgData documentProperty
                             (case fieldTypeMapped of Some t \<Rightarrow> t | None \<Rightarrow> TBinary) of
                        None \<Rightarrow> None
                      | Some (Inl e) \<Rightarrow> Some (Inl e)
                      | Some (Inr (fieldValue, ds')) \<Rightarrow>
                          if isAddPropertyValue fieldName fieldTypeMapped
                          then (case applyValueConverter env fieldName fieldTypeMapped fieldValue of
                                  Inl e \<Rightarrow> Some (Inl e)
                                | Inr v' \<Rightarrow> Some (Inr (attach (ds', setField h fields' fieldName v'))))
                          else Some (Inr (attach (ds', h))))
                else Some (Inr (attach (ds, h))))"

text \<open>
  The root properties branch of \<^verbatim>\<open>#fieldsDataDir\<close>: \<^verbatim>\<open>new DataStream(null)\<close> throws \<^verbatim>\<open>TypeError\<close>.
\<close>

definition rootProperties ::
  "env \<Rightarrow> msgData \<Rightarrow> dirEntry \<Rightarrow> nat \<Rightarrow> dstream \<times> heap \<Rightarrow> (error + dstream \<times> heap) option" where
  "rootProperties env msgData childProperty' fields' st =
     (case st of (ds, h) \<Rightarrow>
      case getFieldValue ds msgData childProperty' TBinary of
        None \<Rightarrow> None
      | Some (Inl e) \<Rightarrow> Some (Inl e)
      | Some (Inr (binPropertiesData, ds')) \<Rightarrow>
          (case binPropertiesData of
             Bytes b \<Rightarrow>
               (case readRootProperties env b of
                  Inl e \<Rightarrow> Some (Inl e)
                | Inr vals \<Rightarrow> Some (Inr (ds', setField h fields' (ustr ''_properties'') (Root vals))))
           | _ \<Rightarrow> Some (Inl TypeError)))"

text \<open>\<^verbatim>\<open>fields.attachments.push(x)\<close>, where \<open>x\<close> is a new empty object.\<close>

definition pushNew :: "heap \<Rightarrow> nat \<Rightarrow> jsstring \<Rightarrow> error + (nat \<times> heap)" where
  "pushNew h fields' k =
     (let new = length h; h1 = h @ [[]] in
      case obj_get (bagAt h1 fields') k of
        Some (Refs rs) \<Rightarrow> Inr (new, setField h1 fields' k (Refs (rs @ [new])))
      | _ \<Rightarrow> Inl TypeError)"

text \<open>The list that the loop of \<^verbatim>\<open>#fieldsDataDir\<close> runs over, and its flag \<^verbatim>\<open>dirIsRoot\<close>.\<close>

definition childIndices :: "dirEntry \<Rightarrow> int list" where
  "childIndices dirProperty = (case children dirProperty of None \<Rightarrow> [] | Some cs \<Rightarrow> cs)"

definition dirIsRoot_of :: "env \<Rightarrow> dirEntry \<Rightarrow> bool" where
  "dirIsRoot_of env dirProperty =
     (pname dirProperty \<noteq> [] \<and> containsStr (ustr ''root'') (toLowerCase env (pname dirProperty)))"

text \<open>
  The three branches of \<^verbatim>\<open>#fieldsDataDirInner\<close> before they recurse: the bag that the
  recursion fills (a new attachment bag, a new recipient bag, or the same bag), or \<open>None\<close>
  for a nested message, which is flagged and not entered.
\<close>

definition innerTarget :: "env \<Rightarrow> dirEntry \<Rightarrow> nat \<Rightarrow> heap \<Rightarrow> error + (nat option \<times> heap)" where
  "innerTarget env dirProperty fields' h =
     (if startsWith (ustr ''__attach_version1.0'') (pname dirProperty)
      then andThen (pushNew h fields' (ustr ''attachments''))
             (\<lambda>(attachmentField, h'). Inr (Some attachmentField, h'))
      else if startsWith (ustr ''__recip_version1.0'') (pname dirProperty)
      then andThen (pushNew h fields' (ustr ''recipients''))
             (\<lambda>(recipientField, h'). Inr (Some recipientField, h'))
      else let childFieldType = getFieldType env dirProperty in
           if childFieldType \<noteq> ustr ''000d''
           then Inr (Some fields', h)
           else Inr (None, setField h fields' (ustr ''innerMsgContent'') (Bool True)))"

text \<open>The branches of the loop of \<^verbatim>\<open>#fieldsDataDir\<close> for a child that is no storage.\<close>

definition otherChild ::
  "env \<Rightarrow> msgData \<Rightarrow> bool \<Rightarrow> dirEntry \<Rightarrow> nat \<Rightarrow> dstream \<times> heap
     \<Rightarrow> (error + dstream \<times> heap) option" where
  "otherChild env msgData dirIsRoot childProperty' fields' st =
     (if ptype childProperty' = DOCUMENT \<and> startsWith (ustr ''__substg1.'') (pname childProperty')
      then fieldsDataDocument env msgData childProperty' fields' st
      else if dirIsRoot \<and> pname childProperty' = ustr ''__properties_version1.0''
      then rootProperties env msgData childProperty' fields' st
      else Some (Inr st))"

text \<open>
  The loop of \<^verbatim>\<open>#fieldsDataDir\<close> over the children of a storage. For a child that is a storage
  it runs \<^verbatim>\<open>#fieldsDataDirInner\<close>, which calls \<^verbatim>\<open>#fieldsDataDir\<close> on the child, that is this loop
  on the children of the child. The recursion follows the child lists and nothing bounds its
  depth; the first argument is fuel, spent by each turn and each call, and \<open>None\<close> is a run
  that needs more.
\<close>

fun fieldsDataChildren ::
  "nat \<Rightarrow> env \<Rightarrow> msgData \<Rightarrow> bool \<Rightarrow> int list \<Rightarrow> nat \<Rightarrow> dstream \<times> heap
     \<Rightarrow> (error + dstream \<times> heap) option"
where
  "fieldsDataChildren 0 env msgData dirIsRoot cs fields' st = None"
| "fieldsDataChildren (Suc n) env msgData dirIsRoot [] fields' st = Some (Inr st)"
| "fieldsDataChildren (Suc n) env msgData dirIsRoot (c # cs) fields' st =
     (case lookupProp (propertyData msgData) c of
        None \<Rightarrow> Some (Inl TypeError)
      | Some childProperty' \<Rightarrow>
          (case (if ptype childProperty' = DIRECTORY
                 then (case innerTarget env childProperty' fields' (snd st) of
                         Inl e \<Rightarrow> Some (Inl e)
                       | Inr (None, h') \<Rightarrow> Some (Inr (fst st, h'))
                       | Inr (Some target, h') \<Rightarrow>
                           fieldsDataChildren n env msgData (dirIsRoot_of env childProperty')
                             (childIndices childProperty') target (fst st, h'))
                 else otherChild env msgData dirIsRoot childProperty' fields' st) of
             None \<Rightarrow> None
           | Some (Inl e) \<Rightarrow> Some (Inl e)
           | Some (Inr st') \<Rightarrow> fieldsDataChildren n env msgData dirIsRoot cs fields' st'))"

text \<open>\<^verbatim>\<open>#fieldsDataDir\<close> and \<^verbatim>\<open>#fieldsDataDirInner\<close> in terms of the loop.\<close>

definition fieldsDataDir ::
  "nat \<Rightarrow> env \<Rightarrow> msgData \<Rightarrow> dirEntry \<Rightarrow> nat \<Rightarrow> dstream \<times> heap
     \<Rightarrow> (error + dstream \<times> heap) option" where
  "fieldsDataDir n env msgData dirProperty fields' st =
     fieldsDataChildren n env msgData (dirIsRoot_of env dirProperty) (childIndices dirProperty)
       fields' st"

definition fieldsDataDirInner ::
  "nat \<Rightarrow> env \<Rightarrow> msgData \<Rightarrow> dirEntry \<Rightarrow> nat \<Rightarrow> dstream \<times> heap
     \<Rightarrow> (error + dstream \<times> heap) option" where
  "fieldsDataDirInner n env msgData dirProperty fields' st =
     (case innerTarget env dirProperty fields' (snd st) of
        Inl e \<Rightarrow> Some (Inl e)
      | Inr (None, h') \<Rightarrow> Some (Inr (fst st, h'))
      | Inr (Some target, h') \<Rightarrow> fieldsDataDir n env msgData dirProperty target (fst st, h'))"

text \<open>
  \<^verbatim>\<open>#fieldsData\<close>: the top-level bag is at address 0 and starts with two empty lists.
\<close>

definition fieldsData :: "nat \<Rightarrow> env \<Rightarrow> dstream \<Rightarrow> msgData \<Rightarrow> (error + dstream \<times> heap) option" where
  "fieldsData n env ds msgData =
     (let fields' = [(ustr ''attachments'', Refs []), (ustr ''recipients'', Refs [])] in
      case lookupProp (propertyData msgData) 0 of
        None \<Rightarrow> Some (Inl TypeError)
      | Some root \<Rightarrow> fieldsDataDir n env msgData root 0 (ds, [fields']))"

text \<open>
  \<^verbatim>\<open>#parseMsgData\<close> and the constructor of \<^verbatim>\<open>MsgReader\<close>. The small table is built before the
  indirection blocks extend the regular table.
\<close>

definition parseMsgData :: "nat \<Rightarrow> env \<Rightarrow> dstream \<Rightarrow> (error + msgData \<times> dstream \<times> heap) option" where
  "parseMsgData n env ds =
     (case andThen (headerData ds) (\<lambda>md0.
           andThen (batData_of ds md0) (\<lambda>bat.
           let md1 = md0\<lparr>batData := bat\<rparr> in
           andThen (sbatData_of ds md1) (\<lambda>sbat.
           let md2 = md1\<lparr>sbatData := sbat\<rparr> in
           if xbatCount md2 > 0 then xbatData ds md2 else Inr md2))) of
        Inl e \<Rightarrow> Some (Inl e)
      | Inr md3 \<Rightarrow>
          (case propertyData_of n ds md3 of
             None \<Rightarrow> None
           | Some (Inl e) \<Rightarrow> Some (Inl e)
           | Some (Inr props) \<Rightarrow>
               (let md4 = md3\<lparr>propertyData := props\<rparr> in
                case fieldsData n env ds md4 of
                  None \<Rightarrow> None
                | Some (Inl e) \<Rightarrow> Some (Inl e)
                | Some (Inr (ds', h)) \<Rightarrow> Some (Inr (md4, ds', h)))))"

definition MsgReader :: "nat \<Rightarrow> env \<Rightarrow> byte list \<Rightarrow> (error + msgData \<times> dstream \<times> heap) option" where
  "MsgReader n env arrayBuffer =
     (let ds = \<lparr>buffer = arrayBuffer, position = 0\<rparr> in
      case isMSGFile ds of
        Inl e \<Rightarrow> Some (Inl e)
      | Inr ok \<Rightarrow> if \<not> ok then Some (Inl UnsupportedFileType) else parseMsgData n env ds)"

section \<open>Definitions for the statements\<close>

text \<open>
  The sectors that a mini chain names, read one by one as \<^verbatim>\<open>#readChainDataByBlockSmall\<close> reads
  them, and the three decoders in the words of the specification: ASCII takes each byte as a
  code unit, UTF-16LE takes pairs of bytes, binary returns the bytes.
\<close>

fun chainSectors :: "dstream \<Rightarrow> msgData \<Rightarrow> jsnum list \<Rightarrow> error + byte list list" where
  "chainSectors ds msgData [] = Inr []"
| "chainSectors ds msgData (c # chain) =
     andThen (readDataByBlockSmall ds msgData c SMALL_BLOCK_SIZE extractBatBinary) (\<lambda>(data, ds').
     andThen (chainSectors ds msgData chain) (\<lambda>rest. Inr (data # rest)))"

definition spec_decode :: "dataType \<Rightarrow> byte list \<Rightarrow> error + jsval" where
  "spec_decode t buf =
     (case t of
        TString \<Rightarrow> Inr (Str (map unat buf))
      | TUnicode \<Rightarrow> if odd (length buf) then Inl RangeError else Inr (Str (uint16s buf))
      | TBinary \<Rightarrow> Inr (Bytes buf))"

text \<open>The array \<open>rd\<close> after \<open>data\<close> has been written into it from position \<open>idx\<close> on.\<close>

definition overlay :: "byte list \<Rightarrow> nat \<Rightarrow> byte list \<Rightarrow> byte list" where
  "overlay rd idx data = take idx rd @ take (length rd - idx) data @ drop (idx + length data) rd"

section \<open>Sample inputs\<close>

text \<open>
  The payload \<^verbatim>\<open>00 80 3E D5 DE B1 9D 01\<close> is the little-endian encoding of the tick value
  116444736000000000, the first instant of 1970.
\<close>

definition epoch_payload :: "byte list" where
  "epoch_payload = [0x00, 0x80, 0x3E, 0xD5, 0xDE, 0xB1, 0x9D, 0x01]"

text \<open>
  A concrete environment for evaluation: three entries of the table of the source, lower-casing
  of the letters A to Z, and bytes below 128 decoded as themselves.
\<close>

definition sample_table :: "jsstring \<Rightarrow> jsstring option" where
  "sample_table k =
     (if k = ustr ''0x0037'' then Some (ustr ''Subject'')
      else if k = ustr ''0x1000'' then Some (ustr ''Body'')
      else if k = ustr ''0x3007'' then Some (ustr ''CreationTime'')
      else None)"

definition ascii_lower :: "jsstring \<Rightarrow> jsstring" where
  "ascii_lower s = map (\<lambda>c. if 65 \<le> c \<and> c \<le> 90 then c + 32 else c) s"

definition sample_env :: env where
  "sample_env = \<lparr>MAPI_PROPERTIES = sample_table, toLowerCase = ascii_lower, utf8Decode = map unat\<rparr>"

text \<open>
  A directory of four entries: the root, whose child pointer is entry 2, and three streams;
  entry 2 has entry 1 as its previous and entry 3 as its next sibling.
\<close>

definition sample_entry :: "int \<Rightarrow> int \<Rightarrow> jsstring \<Rightarrow> int \<Rightarrow> int \<Rightarrow> int \<Rightarrow> int \<Rightarrow> int \<Rightarrow> dirEntry" where
  "sample_entry i ty nm prev nxt child start sz =
     \<lparr>index = i, ptype = ty, pname = nm, previousProperty = prev, nextProperty = nxt,
      childProperty = child, startBlock = start, sizeBlock = sz, children = None\<rparr>"

definition three_siblings :: "dirEntry option list" where
  "three_siblings =
     [Some (sample_entry 0 ROOT (ustr ''Root Entry'') NO_INDEX NO_INDEX 2 0 0),
      Some (sample_entry 1 DOCUMENT (ustr ''a'') NO_INDEX NO_INDEX NO_INDEX 0 0),
      Some (sample_entry 2 DOCUMENT (ustr ''b'') 1 3 NO_INDEX 0 0),
      Some (sample_entry 3 DOCUMENT (ustr ''c'') NO_INDEX NO_INDEX NO_INDEX 0 0)]"

text \<open>
  A container of four 512-byte blocks: the header block, sector 0 (no regular chain is
  followed in it), sector 1 with the mini table \<open>[1, -2, -2, -2, -1, \<dots>]\<close>, and sector 2 with
  the mini stream. Mini sectors 0 and 1 form a chain that holds 70 bytes \<^verbatim>\<open>A\<close>, followed by 58
  bytes \<^verbatim>\<open>Z\<close> that belong to no stream; mini sectors 2 and 3 are chains of their own and start
  with \<^verbatim>\<open>Hi\<close> and \<^verbatim>\<open>Yo\<close>.
\<close>

definition mini_stream :: "byte list" where
  "mini_stream = replicate 70 0x41 @ replicate 58 0x5A @ [0x48, 0x69] @ replicate 62 0x5A
                 @ [0x59, 0x6F] @ replicate 62 0x5A @ replicate 256 0"

definition sample_buffer :: "byte list" where
  "sample_buffer =
     replicate 512 0
     @ replicate 512 0xFF
     @ ([1, 0, 0, 0,  0xFE, 0xFF, 0xFF, 0xFF,  0xFE, 0xFF, 0xFF, 0xFF,  0xFE, 0xFF, 0xFF, 0xFF]
        @ replicate 496 0xFF)
     @ mini_stream"

definition sample_ds :: dstream where
  "sample_ds = \<lparr>buffer = sample_buffer, position = 0\<rparr>"

definition sample_msgData :: "dirEntry option list \<Rightarrow> msgData" where
  "sample_msgData props =
     \<lparr>bigBlockSize = 512, bigBlockLength = 128, xBlockLength = 127, batCount = 1,
      propertyStart = 3, sbatStart = 1, sbatCount = 1, xbatStart = - 2, xbatCount = 0,
      batData = [Some 0], sbatData = [Some 1], propertyData = props\<rparr>"

definition root_entry :: dirEntry where
  "root_entry = sample_entry 0 ROOT (ustr ''Root Entry'') NO_INDEX NO_INDEX 1 2 256"

definition long_stream :: dirEntry where
  "long_stream = sample_entry 1 DOCUMENT (ustr ''__substg1.0_1000001E'') NO_INDEX NO_INDEX NO_INDEX 0 70"

section \<open>Properties of the byte cursor\<close>

lemma le_uint_single: "le_uint [b] = unat b"
  by (simp add: le_uint_def)

lemma readUint8_eq:
  "readUint8 ds = (if position ds < byteLength ds
                   then Inr (unat (buffer ds ! position ds), ds\<lparr>position := position ds + 1\<rparr>)
                   else Inl RangeError)"
  by (auto simp: readUint8_def readBytes_def byteLength_def take_Suc_conv_app_nth hd_drop_conv_nth
      take_Suc le_uint_single)

lemma le_uint_simps: "le_uint [] = 0" "le_uint (b # bs) = unat b + 256 * le_uint bs"
  by (simp_all add: le_uint_def)

lemma le_uint_replicate_zero: "le_uint (replicate n 0) = 0"
  by (induction n) (simp_all add: le_uint_simps)

lemma readUint32_eq:
  "readUint32 ds = (if position ds + 4 \<le> byteLength ds
                    then Inr (le_uint (take 4 (drop (position ds) (buffer ds))),
                              ds\<lparr>position := position ds + 4\<rparr>)
                    else Inl RangeError)"
  by (auto simp: readUint32_def readBytes_def)

lemma readUint16_eq:
  "readUint16 ds = (if position ds + 2 \<le> byteLength ds
                    then Inr (le_uint (take 2 (drop (position ds) (buffer ds))),
                              ds\<lparr>position := position ds + 2\<rparr>)
                    else Inl RangeError)"
  by (auto simp: readUint16_def readBytes_def)

lemma readValue_eq:
  "position ds + n \<le> byteLength ds \<Longrightarrow>
     readValue n ds val =
       Inr (val @ map unat (take n (drop (position ds) (buffer ds))), ds\<lparr>position := position ds + n\<rparr>)"
proof (induction n arbitrary: ds val)
  case 0
  then show ?case by simp
next
  case (Suc n)
  let ?ds' = "ds\<lparr>position := position ds + 1\<rparr>"
  from Suc.prems have lt: "position ds < length (buffer ds)" by (simp add: byteLength_def)
  from Suc.prems have "position ?ds' + n \<le> byteLength ?ds'" by (simp add: byteLength_def)
  from Suc.IH [OF this, of "val @ [unat (buffer ds ! position ds)]"] lt
  show ?case
    by (simp add: readUint8_eq byteLength_def take_Suc hd_drop_conv_nth drop_Suc tl_drop
        Cons_nth_drop_Suc [symmetric])
qed


section \<open>Properties of the fixed property decoder\<close>

lemma reservedZero_header:
  "reservedZero n ds = Inl InvalidPropertiesHeader \<longleftrightarrow>
     (\<exists>i<n. position ds + i < byteLength ds \<and> buffer ds ! (position ds + i) \<noteq> 0)"
proof (induction n arbitrary: ds)
  case 0
  then show ?case by simp
next
  case (Suc n)
  show ?case
  proof (cases "position ds < byteLength ds")
    case False
    then show ?thesis by (simp add: readUint8_eq)
  next
    case True
    show ?thesis
    proof (cases "buffer ds ! position ds = 0")
      case nz: False
      with True have "reservedZero (Suc n) ds = Inl InvalidPropertiesHeader"
        by (simp add: readUint8_eq unat_eq_0)
      moreover from nz True have "\<exists>i<Suc n. position ds + i < byteLength ds \<and> buffer ds ! (position ds + i) \<noteq> 0"
        by (intro exI [of _ 0]) simp
      ultimately show ?thesis by simp
    next
      case z: True
      let ?ds' = "ds\<lparr>position := position ds + 1\<rparr>"
      from True z have "reservedZero (Suc n) ds = reservedZero n ?ds'"
        by (simp add: readUint8_eq)
      moreover have "(\<exists>i<n. position ?ds' + i < byteLength ?ds' \<and> buffer ?ds' ! (position ?ds' + i) \<noteq> 0)
           \<longleftrightarrow> (\<exists>i<Suc n. position ds + i < byteLength ds \<and> buffer ds ! (position ds + i) \<noteq> 0)"
        (is "?L \<longleftrightarrow> ?R")
      proof
        assume ?L
        then obtain i where "i < n" "position ds + Suc i < byteLength ds" "buffer ds ! (position ds + Suc i) \<noteq> 0"
          by (auto simp: byteLength_def)
        then show ?R by (intro exI [of _ "Suc i"]) simp
      next
        assume ?R
        then obtain i where i: "i < Suc n" "position ds + i < byteLength ds" "buffer ds ! (position ds + i) \<noteq> 0"
          by blast
        with z have "i \<noteq> 0" by (cases i) auto
        then obtain j where "i = Suc j" by (cases i) auto
        with i show ?L by (intro exI [of _ j]) (simp add: byteLength_def)
      qed
      ultimately show ?thesis using Suc.IH [of ?ds'] by simp
    qed
  qed
qed

lemma reservedZero_Inr:
  "reservedZero n ds = Inr ds' \<longleftrightarrow>
     (n = 0 \<or> position ds + n \<le> byteLength ds) \<and> (\<forall>i<n. buffer ds ! (position ds + i) = 0)
     \<and> ds' = ds\<lparr>position := position ds + n\<rparr>"
proof (induction n arbitrary: ds)
  case 0
  then show ?case by auto
next
  case (Suc n)
  show ?case
  proof (cases "position ds < byteLength ds \<and> buffer ds ! position ds = 0")
    case False
    then have "\<forall>d. reservedZero (Suc n) ds \<noteq> Inr d"
      by (auto simp: readUint8_eq unat_eq_0)
    moreover from False have "\<not> (position ds + Suc n \<le> byteLength ds \<and> (\<forall>i<Suc n. buffer ds ! (position ds + i) = 0))"
      by (auto dest: spec [of _ 0])
    ultimately show ?thesis by auto
  next
    case True
    let ?ds' = "ds\<lparr>position := position ds + 1\<rparr>"
    from True have step: "reservedZero (Suc n) ds = reservedZero n ?ds'"
      by (simp add: readUint8_eq)
    have all: "(\<forall>i<Suc n. buffer ds ! (position ds + i) = 0) \<longleftrightarrow> (\<forall>i<n. buffer ds ! (position ds + Suc i) = 0)"
      using True by (auto simp: less_Suc_eq_0_disj)
    show ?thesis
      unfolding step Suc.IH [of ?ds'] all using True
      by (auto simp: byteLength_def)
  qed
qed

lemma readBytes_not_header: "readBytes ds n \<noteq> Inl InvalidPropertiesHeader"
  by (simp add: readBytes_def)

lemma uint8ArrayToInt_sizes:
  "sz \<in> {16, 32, 64} \<Longrightarrow> \<exists>d. uint8ArrayToInt a sz = Inr d"
  by (auto simp: uint8ArrayToInt_def Let_def)

lemma readFieldData_total: "\<exists>d. readFieldData t b = Inr d"
proof -
  obtain d16 d32 d64 where
    "uint8ArrayToInt b 16 = Inr d16" "uint8ArrayToInt b 32 = Inr d32" "uint8ArrayToInt b 64 = Inr d64"
    using uint8ArrayToInt_sizes [of 16 b] uint8ArrayToInt_sizes [of 32 b] uint8ArrayToInt_sizes [of 64 b]
    by auto
  then show ?thesis by (simp add: readFieldData_def)
qed

lemma readValue_not_header: "readValue n ds val \<noteq> Inl InvalidPropertiesHeader"
  by (induction n arbitrary: ds val) (auto simp: readUint8_eq)

lemma readEntry_not_header: "readEntry env ds \<noteq> Inl InvalidPropertiesHeader"
proof -
  have r: "\<And>t b. readFieldData t b \<noteq> Inl InvalidPropertiesHeader"
    using readFieldData_total by (metis Inl_Inr_False)
  show ?thesis
    using r
    by (auto simp: readEntry_def andThen_def Let_def readUint16_def readUint32_def
        readBytes_not_header readValue_not_header split: sum.splits)
qed

lemma readEntries_not_header: "readEntries env ds vals \<noteq> Inl InvalidPropertiesHeader"
proof (induction env ds vals rule: readEntries.induct)
  case (1 env ds vals)
  show ?case
  proof (cases "isEof ds")
    case True
    then have "readEntries env ds vals = Inr vals"
      by (subst readEntries.simps) simp
    then show ?thesis by simp
  next
    case False
    show ?thesis
    proof (cases "readEntry env ds")
      case (Inl e)
      with False have "readEntries env ds vals = Inl e"
        by (subst readEntries.simps) simp
      with Inl readEntry_not_header [of env ds] show ?thesis by simp
    next
      case (Inr r)
      obtain kv ds' where r: "r = (kv, ds')" by (cases r)
      with Inr False have "readEntries env ds vals =
          readEntries env ds' (obj_set (fst kv) (RProperty (snd kv)) vals)"
        by (subst readEntries.simps) simp
      with 1 [OF False Inr r [symmetric]] show ?thesis by simp
    qed
  qed
qed

lemma reservedZero_errors:
  "reservedZero n ds = Inl e \<Longrightarrow> e = InvalidPropertiesHeader \<or> e = RangeError"
  by (induction n arbitrary: ds) (auto simp: readUint8_eq split: if_splits)

lemma reservedZero_cases:
  "reservedZero n ds =
     (if \<exists>i<n. position ds + i < byteLength ds \<and> buffer ds ! (position ds + i) \<noteq> 0
      then Inl InvalidPropertiesHeader
      else if n = 0 \<or> position ds + n \<le> byteLength ds
      then Inr (ds\<lparr>position := position ds + n\<rparr>)
      else Inl RangeError)"
proof (cases "reservedZero n ds")
  case (Inl e)
  show ?thesis
  proof (cases "e = InvalidPropertiesHeader")
    case True
    with Inl show ?thesis using reservedZero_header [of n ds] by simp
  next
    case False
    with Inl have e: "e = RangeError" using reservedZero_errors by blast
    from Inl False have no: "\<not> (\<exists>i<n. position ds + i < byteLength ds \<and> buffer ds ! (position ds + i) \<noteq> 0)"
      using reservedZero_header [of n ds] by simp
    from Inl have "\<not> ((n = 0 \<or> position ds + n \<le> byteLength ds) \<and> (\<forall>i<n. buffer ds ! (position ds + i) = 0))"
      using reservedZero_Inr [of n ds "ds\<lparr>position := position ds + n\<rparr>"] by simp
    with no have "\<not> (n = 0 \<or> position ds + n \<le> byteLength ds)"
      by (cases "n = 0") fastforce+
    with Inl e no show ?thesis by simp
  qed
next
  case (Inr ds')
  then have h: "(n = 0 \<or> position ds + n \<le> byteLength ds)" "\<forall>i<n. buffer ds ! (position ds + i) = 0"
    "ds' = ds\<lparr>position := position ds + n\<rparr>"
    using reservedZero_Inr [of n ds ds'] by auto
  then show ?thesis using Inr by auto
qed

lemma readRootProperties_cases:
  "readRootProperties env bs =
     (if \<exists>i<8. i < length bs \<and> bs ! i \<noteq> 0 then Inl InvalidPropertiesHeader
      else if length bs < 24 then Inl RangeError
      else if \<exists>i<8. 24 + i < length bs \<and> bs ! (24 + i) \<noteq> 0 then Inl InvalidPropertiesHeader
      else if length bs < 32 then Inl RangeError
      else readEntries env \<lparr>buffer = bs, position = 32\<rparr> (spec_header bs))"
  (is "_ = (if ?A then _ else if _ then _ else if ?B then _ else _)")
proof -
  let ?ds0 = "\<lparr>buffer = bs, position = 0\<rparr>"
  let ?ds5 = "\<lparr>buffer = bs, position = 24\<rparr>"
  have r1: "reservedZero 8 ?ds0 =
      (if ?A then Inl InvalidPropertiesHeader
       else if 8 \<le> length bs then Inr (\<lparr>buffer = bs, position = 8\<rparr>) else Inl RangeError)"
    unfolding reservedZero_cases [of 8 ?ds0] by (auto simp: byteLength_def)
  have r2: "reservedZero 8 ?ds5 =
      (if ?B then Inl InvalidPropertiesHeader
       else if 32 \<le> length bs then Inr (\<lparr>buffer = bs, position = 32\<rparr>) else Inl RangeError)"
    unfolding reservedZero_cases [of 8 ?ds5] by (auto simp: byteLength_def)
  have unfolded: "readRootProperties env bs =
      andThen (reservedZero 8 ?ds0) (\<lambda>ds1.
      andThen (readUint32 ds1) (\<lambda>(nri, ds2).
      andThen (readUint32 ds2) (\<lambda>(nai, ds3).
      andThen (readUint32 ds3) (\<lambda>(rc, ds4).
      andThen (readUint32 ds4) (\<lambda>(ac, ds5).
      andThen (reservedZero 8 ds5) (\<lambda>ds6.
      readEntries env ds6
        [(ustr ''_header'',
          RHeader \<lparr>nextRecipientId = nri, nextAttachmentId = nai,
                   recipientCount = rc, attachmentCount = ac\<rparr>)]))))))"
    by (simp add: readRootProperties_def seek_def Let_def)
  show ?thesis
  proof (cases ?A)
    case True
    then have "reservedZero 8 ?ds0 = Inl InvalidPropertiesHeader"
      unfolding r1 by (rule if_P)
    with True show ?thesis unfolding unfolded by (simp only: andThen_def sum.case if_P)
  next
    case nA: False
    then have r1': "reservedZero 8 ?ds0 =
        (if 8 \<le> length bs then Inr (\<lparr>buffer = bs, position = 8\<rparr>) else Inl RangeError)"
      unfolding r1 by (rule if_not_P)
    show ?thesis
    proof (cases "length bs < 24")
      case True
      have "readRootProperties env bs = Inl RangeError"
        unfolding unfolded r1' using True
        by (simp add: andThen_def readUint32_eq byteLength_def)
      with nA True show ?thesis by (simp only: if_not_P if_P if_True if_False)
    next
      case len: False
      have reads: "readRootProperties env bs =
          andThen (reservedZero 8 ?ds5) (\<lambda>ds6. readEntries env ds6 (spec_header bs))"
        unfolding unfolded r1' using len
        by (simp add: andThen_def readUint32_eq byteLength_def spec_header_def)
      show ?thesis
      proof (cases ?B)
        case True
        then have "reservedZero 8 ?ds5 = Inl InvalidPropertiesHeader"
          unfolding r2 by (rule if_P)
        then have "readRootProperties env bs = Inl InvalidPropertiesHeader"
          unfolding reads by (simp add: andThen_def)
        with nA len True show ?thesis by (simp only: if_not_P if_P if_True if_False)
      next
        case nB: False
        then have r2': "reservedZero 8 ?ds5 =
            (if 32 \<le> length bs then Inr (\<lparr>buffer = bs, position = 32\<rparr>) else Inl RangeError)"
          unfolding r2 by (rule if_not_P)
        have "readRootProperties env bs =
            (if length bs < 32 then Inl RangeError
             else readEntries env \<lparr>buffer = bs, position = 32\<rparr> (spec_header bs))"
          unfolding reads r2' by (simp add: andThen_def)
        with nA len nB show ?thesis by (simp only: if_not_P if_P if_True if_False)
      qed
    qed
  qed
qed


lemma readEntry_whole:
  assumes "position ds + 16 \<le> byteLength ds"
  shows "readEntry env ds =
           Inr (spec_record env (take 16 (drop (position ds) (buffer ds))),
                ds\<lparr>position := position ds + 16\<rparr>)"
proof -
  let ?p = "position ds" and ?b = "buffer ds"
  let ?c = "take 16 (drop ?p ?b)"
  have s1: "take 2 ?c = take 2 (drop ?p ?b)" by simp
  have s2: "take 2 (drop 2 ?c) = take 2 (drop (?p + 2) ?b)"
    by (simp add: drop_take add.commute)
  have s3: "take 4 (drop 4 ?c) = take 4 (drop (?p + 4) ?b)"
    by (simp add: drop_take add.commute)
  have s4: "take 8 (drop 8 ?c) = take 8 (drop (?p + 8) ?b)"
    by (simp add: drop_take add.commute)
  let ?ds3 = "ds\<lparr>position := ?p + 8\<rparr>"
  have v: "readValue 8 ?ds3 [] = Inr (map unat (take 8 (drop (?p + 8) ?b)), ds\<lparr>position := ?p + 16\<rparr>)"
    using readValue_eq [of ?ds3 8 "[]"] assms by (simp add: byteLength_def)
  obtain d where d: "readFieldData (padStart4 (toString16 (le_uint (take 2 (drop ?p ?b))))) (take 8 (drop (?p + 8) ?b)) = Inr d"
    using readFieldData_total by blast
  have m: "map (word_of_nat \<circ> unat) (take 8 (drop (?p + 8) ?b)) = (take 8 (drop (?p + 8) ?b) :: byte list)"
    by (simp add: map_idI)
  have r16: "readUint16 ds = Inr (le_uint (take 2 (drop ?p ?b)), ds\<lparr>position := ?p + 2\<rparr>)"
    using assms by (simp add: readUint16_eq)
  have r16': "readUint16 (ds\<lparr>position := ?p + 2\<rparr>) =
      Inr (le_uint (take 2 (drop (?p + 2) ?b)), ds\<lparr>position := ?p + 4\<rparr>)"
    using assms by (simp add: readUint16_eq byteLength_def)
  have r32: "readUint32 (ds\<lparr>position := ?p + 4\<rparr>) =
      Inr (le_uint (take 4 (drop (?p + 4) ?b)), ds\<lparr>position := ?p + 8\<rparr>)"
    using assms by (simp add: readUint32_eq byteLength_def)
  show ?thesis
    unfolding readEntry_def spec_record_def s1 s2 s3 s4 fieldDataOf_def
    by (simp add: andThen_def r16 r16' r32 v d m Let_def del: add_2_eq_Suc add_2_eq_Suc')
qed

lemma readEntries_whole:
  "byteLength ds = position ds + 16 * n \<Longrightarrow>
     readEntries env ds vals =
       Inr (foldl (spec_store env) vals (spec_records n (drop (position ds) (buffer ds))))"
proof (induction n arbitrary: ds vals)
  case 0
  then show ?case by (simp add: readEntries.simps isEof_def)
next
  case (Suc n)
  let ?ds' = "ds\<lparr>position := position ds + 16\<rparr>"
  from Suc.prems have a: "position ds + 16 \<le> byteLength ds" and b: "\<not> isEof ds"
    and c: "byteLength ?ds' = position ?ds' + 16 * n"
    by (simp_all add: isEof_def byteLength_def)
  have "readEntries env ds vals =
      readEntries env ?ds' (spec_store env vals (take 16 (drop (position ds) (buffer ds))))"
    using b by (subst readEntries.simps) (simp add: readEntry_whole [OF a] spec_store_def)
  then show ?case
    by (simp add: Suc.IH [OF c] add.commute)
qed


lemma padStart4_simps:
  "padStart4 [a] = [48, 48, 48, a]" "padStart4 [a, b] = [48, 48, a, b]"
  "padStart4 [a, b, c] = [48, a, b, c]" "padStart4 [a, b, c, d] = [a, b, c, d]"
  by (simp_all add: padStart4_def eval_nat_numeral)


section \<open>Properties of tree reconstruction\<close>

lemma lookupProp_Some_iff:
  "lookupProp props i = Some p \<longleftrightarrow> 0 \<le> i \<and> nat i < length props \<and> props ! nat i = Some p"
  by (auto simp: lookupProp_def js_nth_def)

lemma lookupProp_update:
  "lookupProp (props[i := Some p]) j =
     (if j = int i \<and> i < length props then Some p else lookupProp props j)"
  by (auto simp: lookupProp_def js_nth_def nth_list_update)

text \<open>Entries that reconstruction leaves as they are: those with no child pointer.\<close>

definition keepsLeaves :: "dirEntry option list \<Rightarrow> dirEntry option list \<Rightarrow> bool" where
  "keepsLeaves props r \<longleftrightarrow>
     length r = length props
     \<and> (\<forall>i<length props. map_option childProperty (r ! i) = map_option childProperty (props ! i))
     \<and> (\<forall>i<length props. \<forall>p. props ! i = Some p \<and> childProperty p = NO_INDEX \<longrightarrow> r ! i = Some p)"

lemma keepsLeaves_refl: "keepsLeaves props props"
  by (simp add: keepsLeaves_def)

lemma keepsLeaves_trans: "keepsLeaves a b \<Longrightarrow> keepsLeaves b c \<Longrightarrow> keepsLeaves a c"
  by (auto simp: keepsLeaves_def)

lemma keepsLeaves_update:
  assumes "lookupProp props (int node) = Some p" "childProperty p \<noteq> NO_INDEX"
  shows "keepsLeaves props (props[node := Some (p\<lparr>children := cs\<rparr>)])"
  using assms by (auto simp: keepsLeaves_def lookupProp_Some_iff nth_list_update)

lemma keepsLeaves_pushChild:
  assumes "pushChild props node c = Inr props1" "lookupProp props (int node) = Some p"
    "childProperty p \<noteq> NO_INDEX"
  shows "keepsLeaves props props1"
  using assms keepsLeaves_update [OF assms(2,3)]
  by (auto simp: pushChild_def split: option.splits)

lemma keepsLeaves_node:
  assumes "keepsLeaves props r" "lookupProp props i = Some p" "childProperty p \<noteq> NO_INDEX"
  shows "\<exists>p'. lookupProp r i = Some p' \<and> childProperty p' \<noteq> NO_INDEX"
proof -
  from assms(2) have i: "0 \<le> i" "nat i < length props" "props ! nat i = Some p"
    by (simp_all add: lookupProp_Some_iff)
  from assms(1) i have "map_option childProperty (r ! nat i) = Some (childProperty p)"
    by (auto simp: keepsLeaves_def)
  then obtain p' where "r ! nat i = Some p'" "childProperty p' = childProperty p" by auto
  with assms(1,3) i show ?thesis by (auto simp: lookupProp_Some_iff keepsLeaves_def)
qed

lemma hierarchy_keepsLeaves:
  "(\<forall>props node r. createPropertyHierarchy n props node = Some (Inr r) \<longrightarrow> keepsLeaves props r)
   \<and> (\<forall>props node work r p. hierarchyLoop n props node work = Some (Inr r)
          \<longrightarrow> lookupProp props (int node) = Some p \<longrightarrow> childProperty p \<noteq> NO_INDEX
          \<longrightarrow> keepsLeaves props r)"
proof (induction n)
  case 0
  then show ?case by simp
next
  case (Suc n)
  then have IHc: "\<And>props node r. createPropertyHierarchy n props node = Some (Inr r) \<Longrightarrow> keepsLeaves props r"
    and IHl: "\<And>props node work r p. hierarchyLoop n props node work = Some (Inr r) \<Longrightarrow>
               lookupProp props (int node) = Some p \<Longrightarrow> childProperty p \<noteq> NO_INDEX \<Longrightarrow> keepsLeaves props r"
    by blast+
  have c: "keepsLeaves props r" if run: "createPropertyHierarchy (Suc n) props node = Some (Inr r)"
    for props node r
  proof (cases "lookupProp props (int node)")
    case None
    with run show ?thesis by simp
  next
    case (Some p)
    show ?thesis
    proof (cases "childProperty p = NO_INDEX")
      case True
      with Some run show ?thesis by (simp add: keepsLeaves_refl)
    next
      case False
      let ?props0 = "props[node := Some (p\<lparr>children := Some []\<rparr>)]"
      from Some False run have l: "hierarchyLoop n ?props0 node [childProperty p] = Some (Inr r)"
        by simp
      from Some have "lookupProp ?props0 (int node) = Some (p\<lparr>children := Some []\<rparr>)"
        by (simp add: lookupProp_update lookupProp_Some_iff)
      from IHl [OF l this] False have "keepsLeaves ?props0 r" by simp
      with keepsLeaves_update [OF Some False] show ?thesis by (rule keepsLeaves_trans)
    qed
  qed
  have l: "keepsLeaves props r"
    if run: "hierarchyLoop (Suc n) props node work = Some (Inr r)"
      and node: "lookupProp props (int node) = Some p" "childProperty p \<noteq> NO_INDEX"
    for props node work r p
  proof (cases work)
    case Nil
    with run show ?thesis by (simp add: keepsLeaves_refl)
  next
    case (Cons currentIndex rest)
    show ?thesis
    proof (cases "lookupProp props currentIndex")
      case None
      with run Cons have "hierarchyLoop n props node rest = Some (Inr r)" by simp
      from IHl [OF this node] show ?thesis .
    next
      case (Some current)
      from run Cons Some obtain props1 where push: "pushChild props node currentIndex = Inr props1"
        by (auto split: sum.splits)
      from keepsLeaves_pushChild [OF push node] have k1: "keepsLeaves props props1" .
      let ?work = "rest @ (if previousProperty current \<noteq> NO_INDEX then [previousProperty current] else [])
                       @ (if nextProperty current \<noteq> NO_INDEX then [nextProperty current] else [])"
      from run Cons Some push obtain props2 where
        rec: "(if ptype current = DIRECTORY then createPropertyHierarchy n props1 (nat currentIndex)
               else Some (Inr props1)) = Some (Inr props2)"
        and rest: "hierarchyLoop n props2 node ?work = Some (Inr r)"
        by (auto split: option.splits sum.splits if_splits)
      from rec have k2: "keepsLeaves props1 props2"
        by (auto split: if_splits intro: IHc keepsLeaves_refl)
      from k1 k2 have k12: "keepsLeaves props props2" by (rule keepsLeaves_trans)
      from keepsLeaves_node [OF k12 node] obtain p' where
        "lookupProp props2 (int node) = Some p'" "childProperty p' \<noteq> NO_INDEX" by blast
      from IHl [OF rest this] have "keepsLeaves props2 r" .
      with k12 show ?thesis by (rule keepsLeaves_trans)
    qed
  qed
  from c l show ?case by blast
qed

lemma createPropertyHierarchy_leaf:
  "lookupProp props (int node) = Some p \<Longrightarrow> childProperty p = NO_INDEX \<Longrightarrow>
     createPropertyHierarchy (Suc n) props node = Some (Inr props)"
  by simp

lemma visit_sibling:
  assumes cur: "lookupProp props c = Some current"
    and leaf: "ptype current = DIRECTORY \<longrightarrow> childProperty current = NO_INDEX"
    and node: "lookupProp props (int node) = Some p" "children p = Some cs"
    and ne: "c \<noteq> int node"
  shows "hierarchyLoop (Suc (Suc n)) props node (c # work) =
           hierarchyLoop (Suc n) (props[node := Some (p\<lparr>children := Some (cs @ [c])\<rparr>)]) node
             (work @ (if previousProperty current \<noteq> NO_INDEX then [previousProperty current] else [])
                   @ (if nextProperty current \<noteq> NO_INDEX then [nextProperty current] else []))"
proof -
  let ?props1 = "props[node := Some (p\<lparr>children := Some (cs @ [c])\<rparr>)]"
  have push: "pushChild props node c = Inr ?props1"
    using node by (simp add: pushChild_def)
  from cur have c0: "0 \<le> c" by (simp add: lookupProp_Some_iff)
  have cur1: "lookupProp ?props1 (int (nat c)) = Some current"
    using cur ne c0 by (simp add: lookupProp_update)
  show ?thesis
  proof (cases "ptype current = DIRECTORY")
    case True
    with leaf have "childProperty current = NO_INDEX" by simp
    from createPropertyHierarchy_leaf [OF cur1 this]
    have "createPropertyHierarchy (Suc n) ?props1 (nat c) = Some (Inr ?props1)" .
    with True cur push show ?thesis by simp
  next
    case False
    with cur push show ?thesis by simp
  qed
qed

section \<open>Properties of the stream resolver\<close>

lemma copyData_eq: "copyData rd idx data = (overlay rd idx data, idx + length data)"
proof (induction data arbitrary: rd idx)
  case Nil
  then show ?case by (simp add: overlay_def)
next
  case (Cons d data)
  show ?case
  proof (cases "idx < length rd")
    case True
    then show ?thesis
      by (simp add: Cons.IH overlay_def upd_conv_take_nth_drop take_Suc_conv_app_nth
          Suc_diff_Suc [symmetric] add.commute del: Suc_diff_Suc)
  next
    case False
    then show ?thesis by (simp add: Cons.IH overlay_def list_update_beyond)
  qed
qed


lemma overlay_overlay:
  "overlay (overlay rd idx a) (idx + length a) b = overlay rd idx (a @ b)"
proof -
  have len: "length (overlay rd idx a) = length rd"
    by (simp add: overlay_def min_def)
  show ?thesis
  proof (cases "idx \<le> length rd")
    case False
    then show ?thesis by (simp add: overlay_def)
  next
    case le: True
    show ?thesis
    proof (cases "idx + length a \<le> length rd")
      case True
      then have "length rd \<le> idx \<Longrightarrow> a = []" by (cases a) auto
      with le True show ?thesis
        by (auto simp: overlay_def min_def ac_simps)
    next
      case False
      with le show ?thesis
        by (auto simp: overlay_def min_def ac_simps)
    qed
  qed
qed


lemma extractBatBinary_stream:
  "extractBatBinary ds md a b n = Inr (data, ds') \<Longrightarrow> ds' = ds"
  by (auto simp: extractBatBinary_def andThen_def split: sum.splits)

lemma readDataByBlockSmall_binary_stream:
  "readDataByBlockSmall ds md c n extractBatBinary = Inr (data, ds') \<Longrightarrow> ds' = ds"
  by (auto simp: readDataByBlockSmall_def andThen_def Let_def
      split: option.splits sum.splits dest: extractBatBinary_stream)

lemma copyChain_eq:
  "copyChain ds md chain rd idx =
     andThen (chainSectors ds md chain) (\<lambda>blocks. Inr (overlay rd idx (concat blocks)))"
proof (induction chain arbitrary: rd idx)
  case Nil
  show ?case by (simp add: andThen_def overlay_def)
next
  case (Cons c chain)
  show ?case
  proof (cases "readDataByBlockSmall ds md c SMALL_BLOCK_SIZE extractBatBinary")
    case (Inl e)
    then show ?thesis by (simp add: andThen_def)
  next
    case (Inr r)
    obtain data ds' where r: "r = (data, ds')" by (cases r)
    with Inr have "ds' = ds" by (auto dest: readDataByBlockSmall_binary_stream)
    with Inr r show ?thesis
      by (simp add: andThen_def copyData_eq Cons.IH overlay_overlay split: sum.splits)
  qed
qed

lemma overlay_zeros:
  "overlay (replicate n 0) 0 data = take n (data @ replicate n 0)"
  by (simp add: overlay_def min_def)


lemma sbat_dataType_local:
  assumes "length buf = nat sz" "0 \<le> sz"
  shows "andThen (sbat_dataType t \<lparr>buffer = buf, position = 0\<rparr> md (Some 0) (Some 0) sz)
           (\<lambda>(v, localDs'). Inr (v, ds))
         = andThen (spec_decode t buf) (\<lambda>v. Inr (v, ds))"
proof (cases t)
  case TString
  with assms show ?thesis
    by (simp add: sbat_dataType_def extractBatString_def readString_def seek_def jsplus_def
        andThen_def spec_decode_def byteLength_def Let_def)
next
  case TUnicode
  with assms show ?thesis
    by (simp add: sbat_dataType_def extractBatUnicode_def readUCS2String_half_def readBytes_def
        seek_def jsplus_def andThen_def spec_decode_def byteLength_def even_nat_iff)
next
  case TBinary
  with assms show ?thesis
    by (simp add: sbat_dataType_def extractBatBinary_def readUint8Array_def readBytes_def
        seek_def jsplus_def andThen_def spec_decode_def byteLength_def)
qed

lemma readChainDataByBlockSmall_eq:
  "readChainDataByBlockSmall ds md fp chain t =
     (if sizeBlock fp < 0 then Inl RangeError
      else andThen (chainSectors ds md chain) (\<lambda>blocks.
           andThen (spec_decode t (take (nat (sizeBlock fp))
                                    (concat blocks @ replicate (nat (sizeBlock fp)) 0)))
             (\<lambda>v. Inr (v, ds))))"
proof (cases "sizeBlock fp < 0")
  case True
  then show ?thesis by (simp add: readChainDataByBlockSmall_def)
next
  case False
  show ?thesis
  proof (cases "chainSectors ds md chain")
    case (Inl e)
    with False show ?thesis
      by (simp add: readChainDataByBlockSmall_def copyChain_eq andThen_def)
  next
    case (Inr blocks)
    let ?buf = "take (nat (sizeBlock fp)) (concat blocks @ replicate (nat (sizeBlock fp)) 0)"
    have len: "length ?buf = nat (sizeBlock fp)" by simp
    from False have nn: "0 \<le> sizeBlock fp" by simp
    have "readChainDataByBlockSmall ds md fp chain t =
        andThen (sbat_dataType t \<lparr>buffer = ?buf, position = 0\<rparr> md (Some 0) (Some 0) (sizeBlock fp))
          (\<lambda>(v, localDs'). Inr (v, ds))"
      using False Inr
      by (simp add: readChainDataByBlockSmall_def copyChain_eq overlay_zeros andThen_def Let_def)
    also have "\<dots> = andThen (spec_decode t ?buf) (\<lambda>v. Inr (v, ds))"
      by (rule sbat_dataType_local [OF len nn])
    finally show ?thesis using False Inr by (simp add: andThen_def)
  qed
qed

lemma length_int32s: "length (int32s bs) = length bs div 4"
  by (induction bs rule: int32s.induct) simp_all

lemma sample_len: "length sample_buffer = 2048"
  by (simp add: sample_buffer_def mini_stream_def)

lemma sample_msgData_sel:
  "bigBlockSize (sample_msgData props) = 512" "bigBlockLength (sample_msgData props) = 128"
  "batData (sample_msgData props) = [Some 0]" "sbatData (sample_msgData props) = [Some 1]"
  "propertyData (sample_msgData props) = props"
  by (simp_all add: sample_msgData_def)

lemma mini_fat:
  "getBlockAt sample_ds (sample_msgData props) (Some 1) =
     Inr (1 # - 2 # - 2 # - 2 # int32s (replicate 496 0xFF))"
  by (simp add: getBlockAt_def getBlockOffsetAt_def sample_msgData_sel readInt32Array_def
      readBytes_def seek_def byteLength_def sample_ds_def sample_len andThen_def)
     (simp add: sample_buffer_def mini_stream_def to_signed_def le_uint_simps)

lemma next_small:
  "getNextBlockSmall sample_ds (sample_msgData props) (Some 0) = Inr (Some 1)"
  "getNextBlockSmall sample_ds (sample_msgData props) (Some 1) = Inr (Some (- 2))"
  "getNextBlockSmall sample_ds (sample_msgData props) (Some 2) = Inr (Some (- 2))"
  "getNextBlockSmall sample_ds (sample_msgData props) (Some 3) = Inr (Some (- 2))"
  by (simp_all add: getNextBlockSmall_def getNextBlockInner_def js_nth_def js_rem_def mini_fat
      andThen_def length_int32s sample_msgData_sel)

lemma chain_long:
  "getChainByBlockSmall sample_ds (sample_msgData props) long_stream = Some (Inr [Some 0, Some 1])"
  unfolding getChainByBlockSmall_def
  apply (subst chainLoop.simps)
  apply (subst chainLoop.simps)
  apply (subst chainLoop.simps)
  apply (simp add: long_stream_def sample_entry_def next_small END_OF_CHAIN_def)
  done


lemma lookupProp_Cons0: "lookupProp (Some p # ps) 0 = Some p"
  by (simp add: lookupProp_def js_nth_def)

lemma mini_sector:
  "readDataByBlockSmall sample_ds (sample_msgData (Some root_entry # ps)) (Some 0) SMALL_BLOCK_SIZE extractBatBinary
     = Inr (replicate 64 0x41, sample_ds)"
  "readDataByBlockSmall sample_ds (sample_msgData (Some root_entry # ps)) (Some 1) SMALL_BLOCK_SIZE extractBatBinary
     = Inr (replicate 6 0x41 @ replicate 58 0x5A, sample_ds)"
  by (simp_all add: readDataByBlockSmall_def sample_msgData_sel lookupProp_Cons0 SMALL_BLOCK_SIZE_def
      js_rem_def root_entry_def sample_entry_def andThen_def getBlockOffsetAt_def
      extractBatBinary_def readUint8Array_def readBytes_def seek_def jsplus_def byteLength_def
      sample_ds_def sample_len)
     (simp_all add: sample_buffer_def mini_stream_def)

section \<open>Claims\<close>

text \<open>
  C1. A fixed property record of type \<^verbatim>\<open>0040\<close> whose payload encodes the tick value
  116444736000000000 should decode to Unix millisecond 0. The low word \<^verbatim>\<open>0xD53E8000\<close> of that
  tick value has its top bit set, so \<^verbatim>\<open>filetime[3] << 24\<close> makes \<^verbatim>\<open>lowPart\<close> negative; the
  BigInt \<^verbatim>\<open>|\<close> with a negative operand then sets every bit above it, and the high word is
  lost. The decoder returns millisecond -11644473671732 (in December 1600) for this payload.
\<close>

theorem C1_epoch_payload_decodes_to_1600:
  "le_uint epoch_payload = 116444736000000000
   \<and> readFieldData (ustr ''0040'') epoch_payload = Inr (FDate (- 11644473671732))"
  by (simp add: epoch_payload_def le_uint_simps readFieldData_def convertFiletimeToDateTime_def
      int32_of_bytes_def byteAt_def bigint_div_def)

text \<open>
  C4. Decoding the fixed property stream raises the error \<^verbatim>\<open>invalid properties header\<close> exactly
  when one of the bytes 0 to 7 or 24 to 31 of the stream is not zero (a stream that ends before
  such a byte raises \<^verbatim>\<open>RangeError\<close> instead, and no record is returned either way). When these
  bytes are all zero and \<open>n\<close> whole 16-byte records follow the header, the result is the header
  with each of the \<open>n\<close> records decoded and stored in turn.
\<close>

theorem C4_reserved_bytes_checked:
  "(readRootProperties env bs = Inl InvalidPropertiesHeader \<longleftrightarrow>
      (\<exists>i<length bs. (i < 8 \<or> (24 \<le> i \<and> i < 32)) \<and> bs ! i \<noteq> 0))
   \<and> ((\<forall>i<length bs. (i < 8 \<or> (24 \<le> i \<and> i < 32)) \<longrightarrow> bs ! i = 0) \<and> length bs = 32 + 16 * n
        \<longrightarrow> readRootProperties env bs =
              Inr (foldl (spec_store env) (spec_header bs) (spec_records n (drop 32 bs))))"
proof (intro conjI impI)
  let ?A = "\<exists>i<8. i < length bs \<and> bs ! i \<noteq> 0"
  let ?B = "\<exists>i<8. 24 + i < length bs \<and> bs ! (24 + i) \<noteq> 0"
  have R: "(\<exists>i<length bs. (i < 8 \<or> (24 \<le> i \<and> i < 32)) \<and> bs ! i \<noteq> 0) \<longleftrightarrow> ?A \<or> ?B"
  proof
    assume "\<exists>i<length bs. (i < 8 \<or> (24 \<le> i \<and> i < 32)) \<and> bs ! i \<noteq> 0"
    then obtain i where i: "i < length bs" "i < 8 \<or> (24 \<le> i \<and> i < 32)" "bs ! i \<noteq> 0" by blast
    show "?A \<or> ?B"
    proof (cases "i < 8")
      case True
      with i show ?thesis by blast
    next
      case False
      with i have "i - 24 < 8" "24 + (i - 24) < length bs" "bs ! (24 + (i - 24)) \<noteq> 0" by auto
      then show ?thesis by blast
    qed
  next
    assume "?A \<or> ?B"
    then show "\<exists>i<length bs. (i < 8 \<or> (24 \<le> i \<and> i < 32)) \<and> bs ! i \<noteq> 0"
    proof
      assume ?A then show ?thesis by blast
    next
      assume ?B
      then obtain i where "i < 8" "24 + i < length bs" "bs ! (24 + i) \<noteq> 0" by blast
      then show ?thesis by (intro exI [of _ "24 + i"]) simp
    qed
  qed
  have nh: "readEntries env \<lparr>buffer = bs, position = 32\<rparr> (spec_header bs) \<noteq> Inl InvalidPropertiesHeader"
    by (rule readEntries_not_header)
  show "readRootProperties env bs = Inl InvalidPropertiesHeader \<longleftrightarrow>
      (\<exists>i<length bs. (i < 8 \<or> (24 \<le> i \<and> i < 32)) \<and> bs ! i \<noteq> 0)"
    unfolding R readRootProperties_cases using nh by (cases ?A; cases ?B) (simp_all only: if_P if_not_P, auto)
next
  assume h: "(\<forall>i<length bs. (i < 8 \<or> (24 \<le> i \<and> i < 32)) \<longrightarrow> bs ! i = 0) \<and> length bs = 32 + 16 * n"
  then have nA: "\<not> (\<exists>i<8. i < length bs \<and> bs ! i \<noteq> 0)"
    and nB: "\<not> (\<exists>i<8. 24 + i < length bs \<and> bs ! (24 + i) \<noteq> 0)"
    and len: "\<not> length bs < 24" "\<not> length bs < 32" by auto
  have "readRootProperties env bs = readEntries env \<lparr>buffer = bs, position = 32\<rparr> (spec_header bs)"
    unfolding readRootProperties_cases using nA nB len by (simp only: if_not_P if_False)
  also have "\<dots> = Inr (foldl (spec_store env) (spec_header bs) (spec_records n (drop 32 bs)))"
    using readEntries_whole [of "\<lparr>buffer = bs, position = 32\<rparr>" n env "spec_header bs"] h
    by (simp add: byteLength_def)
  finally show "readRootProperties env bs =
              Inr (foldl (spec_store env) (spec_header bs) (spec_records n (drop 32 bs)))" .
qed

theorem C4_reserved_bytes_checked_witness:
  "readRootProperties sample_env
     (replicate 32 0 @ [0x40, 0, 0x07, 0x30, 6, 0, 0, 0] @ epoch_payload)
   = Inr [(ustr ''_header'',
           RHeader \<lparr>nextRecipientId = 0, nextAttachmentId = 0,
                    recipientCount = 0, attachmentCount = 0\<rparr>),
          (ustr ''CreationTime'',
           RProperty \<lparr>ftype = 64, typeStr = ustr ''0040'', flagsWord = 6,
                      binData = epoch_payload, fdata = FDate (- 11644473671732)\<rparr>)]
   \<and> readRootProperties sample_env (replicate 7 0 @ [1]) = Inl InvalidPropertiesHeader"
proof -
  let ?bs = "replicate 32 0 @ [0x40, 0, 0x07, 0x30, 6, 0, 0, 0] @ epoch_payload :: byte list"
  let ?cs = "replicate 7 0 @ [1] :: byte list"
  have h: "(\<forall>i<length ?bs. (i < 8 \<or> (24 \<le> i \<and> i < 32)) \<longrightarrow> ?bs ! i = 0)
           \<and> length ?bs = 32 + 16 * 1"
    by (auto simp: nth_append epoch_payload_def)
  have e: "\<exists>i<length ?cs. (i < 8 \<or> (24 \<le> i \<and> i < 32)) \<and> ?cs ! i \<noteq> 0"
    by (intro exI [of _ 7]) (simp add: nth_append)
  have v: "foldl (spec_store sample_env) (spec_header ?bs) (spec_records 1 (drop 32 ?bs)) =
     [(ustr ''_header'',
       RHeader \<lparr>nextRecipientId = 0, nextAttachmentId = 0,
                recipientCount = 0, attachmentCount = 0\<rparr>),
      (ustr ''CreationTime'',
       RProperty \<lparr>ftype = 64, typeStr = ustr ''0040'', flagsWord = 6,
                  binData = epoch_payload, fdata = FDate (- 11644473671732)\<rparr>)]"
    by (simp add: spec_store_def spec_record_def spec_header_def le_uint_replicate_zero
        sample_env_def sample_table_def ascii_lower_def epoch_payload_def
        getMapiFieldName_def le_uint_simps padStart4_simps toString16.simps hex_digit_def
        ustr_def fieldDataOf_def readFieldData_def convertFiletimeToDateTime_def
        int32_of_bytes_def byteAt_def bigint_div_def Let_def)
  from C4_reserved_bytes_checked [of sample_env ?bs 1] h v
    C4_reserved_bytes_checked [of sample_env ?cs 0] e
  show ?thesis by simp
qed


text \<open>
  C7. Let the child pointer of the root name an entry \<open>m\<close> whose previous and next sibling
  pointers name two further entries \<open>l\<close> and \<open>r\<close>, which have no siblings of their own; the
  three are distinct entries at any positions of the directory, and none of them is a storage
  with children. Then reconstruction, given fuel for its five calls and turns, returns, and
  the child list of the root is \<open>[m, l, r]\<close>: each sibling once. No other entry changes.
\<close>

theorem C7_three_siblings_visited_once:
  assumes root: "lookupProp props 0 = Some root" "childProperty root = m"
    and mid: "lookupProp props m = Some pm" "previousProperty pm = l" "nextProperty pm = r"
    and left: "lookupProp props l = Some pl" "previousProperty pl = NO_INDEX" "nextProperty pl = NO_INDEX"
    and right: "lookupProp props r = Some pr" "previousProperty pr = NO_INDEX" "nextProperty pr = NO_INDEX"
    and dist: "distinct [0, m, l, r]"
    and leaves: "ptype pm = DIRECTORY \<longrightarrow> childProperty pm = NO_INDEX"
                "ptype pl = DIRECTORY \<longrightarrow> childProperty pl = NO_INDEX"
                "ptype pr = DIRECTORY \<longrightarrow> childProperty pr = NO_INDEX"
    and fuel: "5 \<le> n"
  shows "createPropertyHierarchy n props 0 =
           Some (Inr (props[0 := Some (root\<lparr>children := Some [m, l, r]\<rparr>)]))"
proof -
  from fuel obtain k where "n = 5 + k"
    using le_Suc_ex by blast
  then have n: "n = Suc (Suc (Suc (Suc (Suc k))))"
    by (simp add: eval_nat_numeral)
  from mid(1) left(1) right(1) have ge: "0 \<le> m" "0 \<le> l" "0 \<le> r"
    by (simp_all add: lookupProp_Some_iff)
  from mid(1) left(1) right(1) have m_ne: "m \<noteq> NO_INDEX" and l_ne: "l \<noteq> NO_INDEX" and r_ne: "r \<noteq> NO_INDEX"
    by (auto simp: lookupProp_Some_iff NO_INDEX_def)
  from root(1) have len: "0 < length props" by (auto simp: lookupProp_Some_iff)
  let ?p0 = "props[0 := Some (root\<lparr>children := Some []\<rparr>)]"
  let ?p1 = "props[0 := Some (root\<lparr>children := Some [m]\<rparr>)]"
  let ?p2 = "props[0 := Some (root\<lparr>children := Some [m, l]\<rparr>)]"
  let ?p3 = "props[0 := Some (root\<lparr>children := Some [m, l, r]\<rparr>)]"
  have s0: "createPropertyHierarchy n props 0 = hierarchyLoop (Suc (Suc (Suc (Suc k)))) ?p0 0 [m]"
    using root m_ne by (simp add: n)
  have s1: "hierarchyLoop (Suc (Suc (Suc (Suc k)))) ?p0 0 [m] = hierarchyLoop (Suc (Suc (Suc k))) ?p1 0 [l, r]"
    using visit_sibling [of ?p0 m pm 0 "root\<lparr>children := Some []\<rparr>" "[]" "Suc (Suc k)" "[]"]
      mid leaves dist len l_ne r_ne by (simp add: lookupProp_update)
  have s2: "hierarchyLoop (Suc (Suc (Suc k))) ?p1 0 [l, r] = hierarchyLoop (Suc (Suc k)) ?p2 0 [r]"
    using visit_sibling [of ?p1 l pl 0 "root\<lparr>children := Some [m]\<rparr>" "[m]" "Suc k" "[r]"]
      left leaves dist len by (simp add: lookupProp_update)
  have s3: "hierarchyLoop (Suc (Suc k)) ?p2 0 [r] = hierarchyLoop (Suc k) ?p3 0 []"
    using visit_sibling [of ?p2 r pr 0 "root\<lparr>children := Some [m, l]\<rparr>" "[m, l]" "k" "[]"]
      right leaves dist len by (simp add: lookupProp_update)
  show ?thesis unfolding s0 s1 s2 s3 by simp
qed


theorem C7_three_siblings_visited_once_witness:
  "createPropertyHierarchy 5 three_siblings 0 =
     Some (Inr (three_siblings
       [0 := Some ((sample_entry 0 ROOT (ustr ''Root Entry'') NO_INDEX NO_INDEX 2 0 0)
                     \<lparr>children := Some [2, 1, 3]\<rparr>)]))"
  by (rule C7_three_siblings_visited_once
        [where m = 2 and l = 1 and r = 3
           and pm = "sample_entry 2 DOCUMENT (ustr ''b'') 1 3 NO_INDEX 0 0"
           and pl = "sample_entry 1 DOCUMENT (ustr ''a'') NO_INDEX NO_INDEX NO_INDEX 0 0"
           and pr = "sample_entry 3 DOCUMENT (ustr ''c'') NO_INDEX NO_INDEX NO_INDEX 0 0"])
     (simp_all add: three_siblings_def sample_entry_def lookupProp_def js_nth_def
        NO_INDEX_def DIRECTORY_def DOCUMENT_def)

text \<open>
  C9. An entry whose child pointer is the sentinel \<^verbatim>\<open>NO_INDEX\<close> comes out of reconstruction as
  it went in, whatever entry the reconstruction starts from: the source returns before it
  creates a child list for it, so the entry of a freshly parsed directory keeps no child list,
  and the loop of \<^verbatim>\<open>#fieldsDataDir\<close> runs over no child index for it. Reconstruction started at
  such an entry returns at once.
\<close>

theorem C9_no_child_pointer_no_children:
  assumes run: "createPropertyHierarchy n props node = Some (Inr r)"
    and entry: "lookupProp props i = Some p"
    and sentinel: "childProperty p = NO_INDEX"
    and fresh: "children p = None"
  shows "lookupProp r i = Some p \<and> childIndices p = []
         \<and> createPropertyHierarchy (Suc k) props (nat i) = Some (Inr props)"
proof -
  from hierarchy_keepsLeaves [of n] run have "keepsLeaves props r" by blast
  with entry sentinel have "lookupProp r i = Some p"
    by (auto simp: keepsLeaves_def lookupProp_Some_iff)
  moreover from entry have "lookupProp props (int (nat i)) = Some p"
    by (simp add: lookupProp_Some_iff)
  ultimately show ?thesis
    using fresh sentinel by (simp add: childIndices_def)
qed

theorem C9_no_child_pointer_no_children_witness:
  "createPropertyHierarchy 5 three_siblings 0 =
     Some (Inr (three_siblings
       [0 := Some ((sample_entry 0 ROOT (ustr ''Root Entry'') NO_INDEX NO_INDEX 2 0 0)
                     \<lparr>children := Some [2, 1, 3]\<rparr>)]))
   \<and> lookupProp (three_siblings
       [0 := Some ((sample_entry 0 ROOT (ustr ''Root Entry'') NO_INDEX NO_INDEX 2 0 0)
                     \<lparr>children := Some [2, 1, 3]\<rparr>)]) 1
       = Some (sample_entry 1 DOCUMENT (ustr ''a'') NO_INDEX NO_INDEX NO_INDEX 0 0)
   \<and> childIndices (sample_entry 1 DOCUMENT (ustr ''a'') NO_INDEX NO_INDEX NO_INDEX 0 0) = []"
proof -
  let ?r = "three_siblings
       [0 := Some ((sample_entry 0 ROOT (ustr ''Root Entry'') NO_INDEX NO_INDEX 2 0 0)
                     \<lparr>children := Some [2, 1, 3]\<rparr>)]"
  let ?p = "sample_entry 1 DOCUMENT (ustr ''a'') NO_INDEX NO_INDEX NO_INDEX 0 0"
  have run: "createPropertyHierarchy 5 three_siblings 0 = Some (Inr ?r)"
    by (simp add: eval_nat_numeral three_siblings_def sample_entry_def lookupProp_def js_nth_def
        pushChild_def NO_INDEX_def DIRECTORY_def DOCUMENT_def ROOT_def)
  have entry: "lookupProp three_siblings 1 = Some ?p"
    by (simp add: three_siblings_def lookupProp_def js_nth_def)
  have sentinel: "childProperty ?p = NO_INDEX" and fresh: "children ?p = None"
    by (simp_all add: sample_entry_def)
  from C9_no_child_pointer_no_children [OF run entry sentinel fresh] run
  show ?thesis by simp
qed


text \<open>
  C5. \<^verbatim>\<open>#getFieldValue\<close> takes the mini-chain extractor exactly when the declared size is less
  than 4096, and the regular extractor exactly when it is 4096 or more; a stream of size 4096
  is read by the regular extractor.
\<close>

theorem C5_threshold_selects_extractor:
  "(valueExtractor_of fp = Sbat \<longleftrightarrow> sizeBlock fp < 4096)
   \<and> (valueExtractor_of fp = Bat \<longleftrightarrow> 4096 \<le> sizeBlock fp)
   \<and> getFieldValue ds md fp t =
       (if sizeBlock fp < 4096 then extractDataViaSbat ds md fp t
        else Some (extractDataViaBat ds md fp t))
   \<and> getFieldValue ds md (fp\<lparr>sizeBlock := 4096\<rparr>) t =
       Some (extractDataViaBat ds md (fp\<lparr>sizeBlock := 4096\<rparr>) t)"
  by (simp add: valueExtractor_of_def getFieldValue_def BIG_BLOCK_MIN_DOC_SIZE_def)

text \<open>
  C10. A stream below the threshold whose mini chain has more than one sector is decoded from
  a buffer of exactly the declared size: the first \<^verbatim>\<open>sizeBlock\<close> bytes of the concatenated
  sectors of the chain (followed by zeros, should the chain hold fewer). What the last mini
  sector holds past the declared size is not in the buffer; a binary value has exactly
  \<^verbatim>\<open>sizeBlock\<close> bytes. A negative declared size throws \<^verbatim>\<open>RangeError\<close>.
\<close>

theorem C10_chain_buffer_has_declared_size:
  assumes chain: "getChainByBlockSmall ds md fp = Some (Inr chain)"
    and long: "1 < length chain"
    and small: "sizeBlock fp < 4096"
  shows "getFieldValue ds md fp t =
           Some (if sizeBlock fp < 0 then Inl RangeError
                 else andThen (chainSectors ds md chain) (\<lambda>blocks.
                      andThen (spec_decode t (take (nat (sizeBlock fp))
                                 (concat blocks @ replicate (nat (sizeBlock fp)) 0)))
                        (\<lambda>v. Inr (v, ds))))
         \<and> (\<forall>data ds'. getFieldValue ds md fp TBinary = Some (Inr (Bytes data, ds'))
               \<longrightarrow> length data = nat (sizeBlock fp))"
proof -
  have g: "getFieldValue ds md fp t = Some (readChainDataByBlockSmall ds md fp chain t)" for t
    using chain long small
    by (simp add: getFieldValue_def valueExtractor_of_def BIG_BLOCK_MIN_DOC_SIZE_def
        extractDataViaSbat_def)
  have "length data = nat (sizeBlock fp)"
    if "getFieldValue ds md fp TBinary = Some (Inr (Bytes data, ds'))" for data ds'
    using that unfolding g readChainDataByBlockSmall_eq
    by (auto simp: andThen_def spec_decode_def split: if_splits sum.splits)
  then show ?thesis unfolding g readChainDataByBlockSmall_eq by blast
qed


theorem C10_chain_buffer_has_declared_size_witness:
  "getChainByBlockSmall sample_ds (sample_msgData [Some root_entry, Some long_stream]) long_stream
     = Some (Inr [Some 0, Some 1])
   \<and> getFieldValue sample_ds (sample_msgData [Some root_entry, Some long_stream]) long_stream TBinary
     = Some (Inr (Bytes (replicate 64 0x41 @ replicate 6 0x41), sample_ds))"
proof -
  let ?md = "sample_msgData [Some root_entry, Some long_stream]"
  have chain: "getChainByBlockSmall sample_ds ?md long_stream = Some (Inr [Some 0, Some 1])"
    by (rule chain_long)
  have long: "1 < length [Some 0, Some (1::int)]" by simp
  have small: "sizeBlock long_stream < 4096" by (simp add: long_stream_def sample_entry_def)
  have sz: "sizeBlock long_stream = 70" by (simp add: long_stream_def sample_entry_def)
  from C10_chain_buffer_has_declared_size [OF chain long small, of TBinary] chain
  show ?thesis
    by (simp add: sz mini_sector andThen_def spec_decode_def)
qed

end
